theory Spec2Isabelle
  imports Complex_Main "HOL-Library.AList"
begin

section \<open>Text as Python sees it\<close>

text \<open>
  A Python \<open>str\<close> is a sequence of code points. The model keeps the code points
  U+0000 to U+00FF, one \<^typ>\<open>char\<close> each (\<open>of_char c\<close> is the code point), which a
  command-line token and an URL can contain. The three character classes below are
  Python's own tables cut to that range.
\<close>

definition isspace_char :: "char \<Rightarrow> bool" where
  \<comment> \<open>\<open>str.isspace\<close> on one character: TAB to CR, FS to US, SPACE, NEL, NBSP.\<close>
  "isspace_char c =
     (let n = (of_char c :: nat)
      in (9 \<le> n \<and> n \<le> 13) \<or> (28 \<le> n \<and> n \<le> 32) \<or> n = 133 \<or> n = 160)"

definition isdigit_char :: "char \<Rightarrow> bool" where
  \<comment> \<open>\<open>str.isdigit\<close> on one character: Numeric_Type Decimal (\<open>0\<close> to \<open>9\<close>) or Digit
      (the superscripts U+00B2, U+00B3 and U+00B9).\<close>
  "isdigit_char c =
     (let n = (of_char c :: nat)
      in (48 \<le> n \<and> n \<le> 57) \<or> n = 178 \<or> n = 179 \<or> n = 185)"

definition isdecimal_char :: "char \<Rightarrow> bool" where
  \<comment> \<open>The characters \<open>int()\<close> and \<open>float()\<close> read as decimal digits.\<close>
  "isdecimal_char c = (let n = (of_char c :: nat) in 48 \<le> n \<and> n \<le> 57)"

definition lower_char :: "char \<Rightarrow> char" where
  \<comment> \<open>\<open>str.lower\<close> on one character: \<open>A\<close> to \<open>Z\<close> and the Latin-1 capitals
      U+00C0 to U+00DE (without U+00D7) move up by 32.\<close>
  "lower_char c =
     (let n = (of_char c :: nat)
      in if (65 \<le> n \<and> n \<le> 90) \<or> (192 \<le> n \<and> n \<le> 214) \<or> (216 \<le> n \<and> n \<le> 222)
         then char_of (n + 32) else c)"

definition lower :: "string \<Rightarrow> string" where
  "lower s = map lower_char s"

definition isdigit :: "string \<Rightarrow> bool" where
  \<comment> \<open>\<open>str.isdigit()\<close>: at least one character, and all of them digits.\<close>
  "isdigit s = (s \<noteq> [] \<and> list_all isdigit_char s)"

definition strip :: "string \<Rightarrow> string" where
  \<comment> \<open>\<open>str.strip()\<close>: leading and trailing whitespace removed.\<close>
  "strip s = rev (dropWhile isspace_char (rev (dropWhile isspace_char s)))"

definition rstrip :: "char \<Rightarrow> string \<Rightarrow> string" where
  \<comment> \<open>\<open>s.rstrip(c)\<close> for a one-character argument: every trailing \<open>c\<close> removed.\<close>
  "rstrip c s = rev (dropWhile (\<lambda>x. x = c) (rev s))"

definition replace_dot :: "string \<Rightarrow> string" where
  \<comment> \<open>\<open>value.replace(".", "")\<close>\<close>
  "replace_dot s = filter (\<lambda>c. c \<noteq> CHR ''.'') s"

definition count_dot :: "string \<Rightarrow> nat" where
  \<comment> \<open>\<open>value.count(".")\<close>\<close>
  "count_dot s = length (filter (\<lambda>c. c = CHR ''.'') s)"

definition split_eq :: "string \<Rightarrow> string \<times> string" where
  \<comment> \<open>\<open>param.split("=", 1)\<close> for a \<open>param\<close> that contains \<open>=\<close>: the text before the
      first \<open>=\<close> and the text after it.\<close>
  "split_eq s = (takeWhile (\<lambda>c. c \<noteq> CHR ''='') s, tl (dropWhile (\<lambda>c. c \<noteq> CHR ''='') s))"

definition digit_value :: "char \<Rightarrow> int" where
  "digit_value c = int (of_char c) - 48"

definition decimal_value :: "string \<Rightarrow> int" where
  \<comment> \<open>The number a run of decimal digits denotes (0 for the empty run).\<close>
  "decimal_value s = foldl (\<lambda>n c. 10 * n + digit_value c) 0 s"

section \<open>Values and exceptions\<close>

text \<open>
  A query parameter is a \<open>bool\<close>, an \<open>int\<close>, a \<open>float\<close> or a \<open>str\<close>.
  \<open>PFloat q\<close> stands for the float that \<open>float()\<close> returns for a decimal numeral whose
  exact value is \<open>q\<close>; the rounding to binary64 is a function of \<open>q\<close> and is not
  unfolded here.
\<close>

datatype pyval = PBool bool | PInt int | PFloat rat | PStr string

text \<open>A \<open>dict\<close> keeps its keys in insertion order; assigning to a key that is present
  replaces the value where it stands, which is what \<open>AList.update\<close> does.\<close>

type_synonym ('k, 'v) dict = "('k \<times> 'v) list"

datatype json =
    JNull | JBool bool | JInt int | JFloat rat | JString string
  | JArray "json list" | JObject "(string \<times> json) list"

record response =
  status_code :: int
  headers :: "(string, string) dict"
  reason :: string
  url :: string
  content :: string

text \<open>
  The exceptions that reach this program. \<open>ValueError\<close> and \<open>RequestException\<close> carry
  \<open>str(e)\<close>; a \<open>RequestException\<close> also carries its \<open>response\<close> attribute, which
  \<open>RequestException.__init__\<close> always sets (to \<open>None\<close> when no response is given).
  \<open>InvalidLiteral f v\<close> is the \<open>ValueError\<close> that the builtin \<open>f\<close> raises on the text
  \<open>v\<close>. \<open>KeyboardInterrupt\<close> and \<open>SystemExit\<close> are not subclasses of \<open>Exception\<close>.
\<close>

datatype builtin = Builtin_int | Builtin_float

datatype exn =
    ValueError string
  | InvalidLiteral builtin string
  | RequestException string "response option"
  | OtherException string
  | KeyboardInterrupt
  | SystemExit int

fun is_ValueError :: "exn \<Rightarrow> bool" where
  "is_ValueError (ValueError _) = True"
| "is_ValueError (InvalidLiteral _ _) = True"
| "is_ValueError _ = False"

fun is_Exception :: "exn \<Rightarrow> bool" where
  "is_Exception KeyboardInterrupt = False"
| "is_Exception (SystemExit _) = False"
| "is_Exception _ = True"

section \<open>main.py: parse_params\<close>

definition py_int :: "string \<Rightarrow> exn + int" where
  \<comment> \<open>\<open>int(value)\<close> on a text that passed \<open>value.isdigit()\<close>: the number if every
      character is a decimal digit and there are at most 4300 of them (the interpreter's
      default limit for the conversion, leading zeros counted); \<open>ValueError\<close> otherwise.\<close>
  "py_int v =
     (if v \<noteq> [] \<and> list_all isdecimal_char v \<and> length v \<le> 4300 then Inr (decimal_value v)
      else Inl (InvalidLiteral Builtin_int v))"

definition py_float :: "string \<Rightarrow> exn + rat" where
  \<comment> \<open>\<open>float(value)\<close> on a text with one \<open>.\<close> whose other characters passed
      \<open>isdigit()\<close>: digits, point, digits.\<close>
  "py_float v =
     (let ds = replace_dot v;
          frac = tl (dropWhile (\<lambda>c. c \<noteq> CHR ''.'') v)
      in if ds \<noteq> [] \<and> list_all isdecimal_char ds
         then Inr (of_int (decimal_value ds) / of_int (10 ^ length frac))
         else Inl (InvalidLiteral Builtin_float v))"

definition coerce :: "string \<Rightarrow> exn + pyval" where
  \<comment> \<open>The \<open>if\<close>/\<open>elif\<close> chain of \<open>parse_params\<close> on the stripped value.\<close>
  "coerce v =
     (if lower v = ''true'' \<or> lower v = ''false'' then Inr (PBool (lower v = ''true''))
      else if isdigit v then map_sum id PInt (py_int v)
      else if isdigit (replace_dot v) \<and> count_dot v = 1 then map_sum id PFloat (py_float v)
      else Inr (PStr v))"

fun parse_loop :: "(string, pyval) dict \<Rightarrow> string list \<Rightarrow> exn + (string, pyval) dict" where
  "parse_loop parsed_params [] = Inr parsed_params"
| "parse_loop parsed_params (param # rest) =
     (if CHR ''='' \<notin> set param
      then Inl (ValueError (''Invalid parameter format: '' @ param @ ''. Expected 'key=value'' @ [CHR 0x27]))
      else
        let key = strip (fst (split_eq param));
            val = strip (snd (split_eq param))
        in if key = [] then Inl (ValueError (''Empty key in parameter: '' @ param))
           else case coerce val of
                  Inl e \<Rightarrow> Inl e
                | Inr x \<Rightarrow> parse_loop (AList.update key x parsed_params) rest)"

definition parse_params :: "string list \<Rightarrow> exn + (string, pyval) dict" where
  "parse_params params_list = (if params_list = [] then Inr [] else parse_loop [] params_list)"

section \<open>The requests library, as far as this program uses it\<close>

function str_nat :: "nat \<Rightarrow> string" where
  "str_nat n =
     (if n < 10 then [char_of (48 + n)] else str_nat (n div 10) @ [char_of (48 + n mod 10)])"
  by pat_completeness auto
termination
  by (relation "measure id") auto

declare str_nat.simps [simp del]

definition str_int :: "int \<Rightarrow> string" where
  \<comment> \<open>\<open>str(i)\<close> for an \<open>int\<close>.\<close>
  "str_int i = (if i < 0 then CHR ''-'' # str_nat (nat (- i)) else str_nat (nat i))"

definition raise_for_status :: "response \<Rightarrow> exn option" where
  \<comment> \<open>\<open>Response.raise_for_status()\<close>: an \<open>HTTPError\<close> (a \<open>RequestException\<close>) that
      carries the response, for a status from 400 to 599; nothing for any other status.\<close>
  "raise_for_status r =
     (if 400 \<le> status_code r \<and> status_code r < 500
      then Some (RequestException
                   (str_int (status_code r) @ '' Client Error: '' @ reason r @ '' for url: '' @ url r)
                   (Some r))
      else if 500 \<le> status_code r \<and> status_code r < 600
      then Some (RequestException
                   (str_int (status_code r) @ '' Server Error: '' @ reason r @ '' for url: '' @ url r)
                   (Some r))
      else None)"

definition Response_bool :: "response \<Rightarrow> bool" where
  \<comment> \<open>\<open>Response.__bool__\<close> returns \<open>self.ok\<close>: whether \<open>raise_for_status()\<close> passes.\<close>
  "Response_bool r = (raise_for_status r = None)"

fun is_RequestException :: "exn \<Rightarrow> bool" where
  "is_RequestException (RequestException _ _) = True"
| "is_RequestException _ = False"

section \<open>The outside world and the trace of a run\<close>

text \<open>
  \<open>Session.get\<close> is the boundary, as in the repository's tests, which patch it: a
  \<open>call\<close> lists the arguments the code passes, and the world answers with a response
  or an exception. The world also gives the outcome of argument parsing, of
  \<open>get_settings()\<close> and of \<open>setup_logger\<close>, and the JSON decoder behind
  \<open>Response.json()\<close>. The state of a run records the calls made, what was printed
  on standard output (one item per \<open>print\<close>), and how many sessions were closed.
  Log lines go to a side channel and are not recorded.
\<close>

record call =
  call_url :: string
  call_params :: "(string, pyval) dict option"
  call_timeout :: int

record settings =
  env :: string
  api_base_url :: string
  api_key :: "string option"
  log_level :: string

record args =
  command :: "string option"
  params :: "string list option"

record envelope =
  status :: "int option"
  headers_env :: "(string, string) dict"
  success :: bool
  message :: string

datatype printed =
    PrintHelp
  | PrintEnvelope envelope
  | PrintPingError exn
  | PrintJson json
  | PrintGetError exn
  | PrintParamError exn
  | PrintCancelled
  | PrintUnexpected exn

record world =
  parse_args :: "exn + args"
  get_settings :: "exn + settings"
  setup_logger :: "string \<Rightarrow> exn option"
  session_get :: "call \<Rightarrow> exn + response"
  json_loads :: "string \<Rightarrow> string + json"

record state =
  calls :: "call list"
  stdout :: "printed list"
  closed :: nat

definition py_print :: "printed \<Rightarrow> state \<Rightarrow> state" where
  "py_print x s = s\<lparr>stdout := stdout s @ [x]\<rparr>"

definition Session_get :: "world \<Rightarrow> call \<Rightarrow> state \<Rightarrow> (exn + response) \<times> state" where
  "Session_get w c s = (session_get w c, s\<lparr>calls := calls s @ [c]\<rparr>)"

definition Response_json :: "world \<Rightarrow> response \<Rightarrow> exn + json" where
  \<comment> \<open>\<open>Response.json()\<close>: a body that does not decode raises
      \<open>requests.exceptions.JSONDecodeError\<close>, a \<open>RequestException\<close> (requests 2.27 on).\<close>
  "Response_json w r =
     (case json_loads w (content r) of
        Inl m \<Rightarrow> Inl (RequestException m None)
      | Inr j \<Rightarrow> Inr j)"

definition try_except ::
  "(exn + 'a) \<times> state \<Rightarrow> (exn \<Rightarrow> bool) \<Rightarrow> (exn \<Rightarrow> state \<Rightarrow> (exn + 'a) \<times> state)
     \<Rightarrow> (exn + 'a) \<times> state" where
  \<comment> \<open>\<open>try: body except C as e: handler\<close>\<close>
  "try_except body catches handler =
     (case body of
        (Inl e, s) \<Rightarrow> if catches e then handler e s else (Inl e, s)
      | (Inr x, s) \<Rightarrow> (Inr x, s))"

section \<open>services/example\_service.py\<close>

text \<open>
  The wrapper keeps the base URL, the timeout and the session. The session stands behind
  \<open>Session_get\<close> and \<open>close\<close>; its header table is written once by \<open>__init__\<close> and
  read by no operation of the wrapper, and is left out.
\<close>

record service =
  base_url :: string
  timeout :: int

definition ExampleService_init :: "string \<Rightarrow> int option \<Rightarrow> service" where
  \<comment> \<open>\<open>__init__(self, base_url, timeout=30)\<close>; \<open>None\<close> is the omitted argument.\<close>
  "ExampleService_init b t =
     \<lparr>base_url = rstrip CHR ''/'' b, timeout = (case t of None \<Rightarrow> 30 | Some n \<Rightarrow> n)\<rparr>"

definition get_url :: "service \<Rightarrow> string" where
  \<comment> \<open>\<open>url = f"{self.base_url}/get"\<close>\<close>
  "get_url self = base_url self @ ''/get''"

definition get_with_params ::
  "world \<Rightarrow> service \<Rightarrow> (string, pyval) dict option \<Rightarrow> state \<Rightarrow> (exn + json) \<times> state" where
  "get_with_params w self ps s =
     try_except
       (case Session_get w \<lparr>call_url = get_url self, call_params = ps, call_timeout = timeout self\<rparr> s of
          (Inl e, s') \<Rightarrow> (Inl e, s')
        | (Inr response, s') \<Rightarrow>
            (case raise_for_status response of
               Some e \<Rightarrow> (Inl e, s')
             | None \<Rightarrow> (Response_json w response, s')))
       is_RequestException
       (\<lambda>e s'.
          case e of
            RequestException str_e _ \<Rightarrow>
              (Inl (RequestException
                      (''GET request to '' @ get_url self @ '' failed: '' @ str_e) None), s')
          | _ \<Rightarrow> (Inl e, s'))"

definition ping :: "world \<Rightarrow> service \<Rightarrow> state \<Rightarrow> (exn + envelope) \<times> state" where
  "ping w self s =
     try_except
       (case Session_get w \<lparr>call_url = get_url self, call_params = None, call_timeout = timeout self\<rparr> s of
          (Inl e, s') \<Rightarrow> (Inl e, s')
        | (Inr response, s') \<Rightarrow>
            (case raise_for_status response of
               Some e \<Rightarrow> (Inl e, s')
             | None \<Rightarrow>
                 (Inr \<lparr>status = Some (status_code response),
                       headers_env = headers response,
                       success = True,
                       message = ''Successfully connected to '' @ get_url self\<rparr>, s')))
       is_RequestException
       (\<lambda>e s'.
          case e of
            RequestException str_e e_response \<Rightarrow>
              (Inr \<lparr>status = (case e_response of None \<Rightarrow> None | Some r \<Rightarrow> Some (status_code r)),
                    headers_env =
                      (case e_response of
                         None \<Rightarrow> []
                       | Some r \<Rightarrow> if Response_bool r then headers r else []),
                    success = False,
                    message = ''Connection to '' @ get_url self @ '' failed: '' @ str_e\<rparr>, s')
          | _ \<Rightarrow> (Inl e, s'))"

definition close :: "service \<Rightarrow> state \<Rightarrow> state" where
  "close self s = s\<lparr>closed := closed s + 1\<rparr>"

section \<open>main.py: the dispatcher\<close>

definition handle_ping_command :: "world \<Rightarrow> service \<Rightarrow> state \<Rightarrow> (exn + int) \<times> state" where
  "handle_ping_command w svc s =
     try_except
       (case ping w svc s of
          (Inl e, s') \<Rightarrow> (Inl e, s')
        | (Inr result, s') \<Rightarrow>
            (Inr (if success result then 0 else 1), py_print (PrintEnvelope result) s'))
       is_Exception
       (\<lambda>e s'. (Inr 1, py_print (PrintPingError e) s'))"

definition handle_get_command ::
  "world \<Rightarrow> service \<Rightarrow> (string, pyval) dict \<Rightarrow> state \<Rightarrow> (exn + int) \<times> state" where
  "handle_get_command w svc ps s =
     try_except
       (case get_with_params w svc (if ps = [] then None else Some ps) s of
          (Inl e, s') \<Rightarrow> (Inl e, s')
        | (Inr result, s') \<Rightarrow> (Inr 0, py_print (PrintJson result) s'))
       is_Exception
       (\<lambda>e s'. (Inr 1, py_print (PrintGetError e) s'))"

definition with_service ::
  "service \<Rightarrow> (state \<Rightarrow> (exn + int) \<times> state) \<Rightarrow> state \<Rightarrow> (exn + int) \<times> state" where
  \<comment> \<open>\<open>with ... as service: body\<close>; \<open>__exit__\<close> closes the session on every way out and
      lets an exception pass.\<close>
  "with_service svc body s = (case body s of (r, s') \<Rightarrow> (r, close svc s'))"

definition dispatch :: "world \<Rightarrow> args \<Rightarrow> settings \<Rightarrow> state \<Rightarrow> (exn + int) \<times> state" where
  \<comment> \<open>\<open>main\<close> from the check of \<open>args.command\<close> on; \<open>not args.command\<close> holds for
      \<open>None\<close> and for the empty text.\<close>
  "dispatch w a cfg s =
     (if command a = None \<or> command a = Some [] then (Inr 1, py_print PrintHelp s)
      else
        with_service (ExampleService_init (api_base_url cfg) None)
          (\<lambda>s. let svc = ExampleService_init (api_base_url cfg) None
               in if command a = Some ''ping'' then handle_ping_command w svc s
                  else if command a = Some ''get'' then
                    try_except
                      (case parse_params (case params a of None \<Rightarrow> [] | Some l \<Rightarrow> l) of
                         Inl e \<Rightarrow> (Inl e, s)
                       | Inr ps \<Rightarrow> handle_get_command w svc ps s)
                      is_ValueError
                      (\<lambda>e s'. (Inr 1, py_print (PrintParamError e) s'))
                  else (Inr 1, py_print PrintHelp s))
          s)"

definition main_try :: "world \<Rightarrow> state \<Rightarrow> (exn + int) \<times> state" where
  \<comment> \<open>The body of the \<open>try\<close> in \<open>main\<close>.\<close>
  "main_try w s =
     (case parse_args w of
        Inl e \<Rightarrow> (Inl e, s)
      | Inr a \<Rightarrow>
          (case get_settings w of
             Inl e \<Rightarrow> (Inl e, s)
           | Inr cfg \<Rightarrow>
               (case setup_logger w (log_level cfg) of
                  Some e \<Rightarrow> (Inl e, s)
                | None \<Rightarrow> dispatch w a cfg s)))"

definition main :: "world \<Rightarrow> state \<Rightarrow> (exn + int) \<times> state" where
  "main w s =
     try_except
       (try_except (main_try w s) (\<lambda>e. e = KeyboardInterrupt)
          (\<lambda>e s'. (Inr 130, py_print PrintCancelled s')))
       is_Exception
       (\<lambda>e s'. (Inr 1, py_print (PrintUnexpected e) s'))"

section \<open>Vocabulary of the properties\<close>

definition ping_call :: "service \<Rightarrow> call" where
  \<comment> \<open>The request \<open>ping\<close> is expected to issue: GET \<open>{base_url}/get\<close>, no parameters.\<close>
  "ping_call svc =
     \<lparr>call_url = base_url svc @ ''/get'', call_params = None, call_timeout = timeout svc\<rparr>"

definition get_call :: "service \<Rightarrow> (string, pyval) dict option \<Rightarrow> call" where
  \<comment> \<open>The request \<open>get_with_params(ps)\<close> is expected to issue.\<close>
  "get_call svc ps =
     \<lparr>call_url = base_url svc @ ''/get'', call_params = ps, call_timeout = timeout svc\<rparr>"

definition started :: "world \<Rightarrow> args \<Rightarrow> settings \<Rightarrow> bool" where
  \<comment> \<open>Argument parsing, settings and logger setup went through.\<close>
  "started w a cfg =
     (parse_args w = Inr a \<and> get_settings w = Inr cfg \<and> setup_logger w (log_level cfg) = None)"

definition the_service :: "settings \<Rightarrow> service" where
  \<comment> \<open>\<open>ExampleService(settings.api_base_url)\<close>, as \<open>main\<close> constructs it.\<close>
  "the_service cfg = ExampleService_init (api_base_url cfg) None"

definition malformed :: "string \<Rightarrow> bool" where
  \<comment> \<open>A token without \<open>=\<close>, or whose key is empty once stripped.\<close>
  "malformed p = (CHR ''='' \<notin> set p \<or> strip (fst (split_eq p)) = [])"

subsection \<open>Sample runs\<close>

definition state0 :: state where
  "state0 = \<lparr>calls = [], stdout = [], closed = 0\<rparr>"

definition resp_ok :: response where
  "resp_ok = \<lparr>status_code = 200, headers = [(''Content-Type'', ''application/json'')],
               reason = ''OK'', url = ''https://x/get'', content = ''{}''\<rparr>"

definition resp_ok_html :: response where
  "resp_ok_html = \<lparr>status_code = 200, headers = [(''Content-Type'', ''application/json'')],
                    reason = ''OK'', url = ''https://x/get'', content = ''<html>''\<rparr>"

definition resp_not_found :: response where
  "resp_not_found = \<lparr>status_code = 404, headers = [(''Server'', ''nginx'')],
                      reason = ''Not Found'', url = ''https://x/get'', content = ''{}''\<rparr>"

definition resp_not_modified :: response where
  "resp_not_modified = \<lparr>status_code = 304, headers = [(''Server'', ''nginx'')],
                         reason = ''Not Modified'', url = ''https://x/get'', content = []\<rparr>"

definition resp_multiple_choices :: response where
  "resp_multiple_choices = \<lparr>status_code = 300, headers = [(''Server'', ''nginx'')],
                             reason = ''Multiple Choices'', url = ''https://x/get'', content = ''{}''\<rparr>"

definition settings0 :: settings where
  "settings0 = \<lparr>env = ''dev'', api_base_url = ''https://x/'', api_key = None, log_level = ''INFO''\<rparr>"

definition service0 :: service where
  "service0 = \<lparr>base_url = ''https://x'', timeout = 30\<rparr>"

definition loads0 :: "string \<Rightarrow> string + json" where
  "loads0 t = (if t = ''{}'' then Inr (JObject []) else Inl ''Expecting value'')"

definition world0 :: "exn + args \<Rightarrow> exn + settings \<Rightarrow> exn + response \<Rightarrow> world" where
  \<comment> \<open>A world that gives these outcomes whatever it is asked.\<close>
  "world0 pa gs net =
     \<lparr>parse_args = pa, get_settings = gs, setup_logger = (\<lambda>_. None),
      session_get = (\<lambda>_. net), json_loads = loads0\<rparr>"

definition args0 :: "string option \<Rightarrow> string list option \<Rightarrow> args" where
  "args0 c ps = \<lparr>command = c, params = ps\<rparr>"

definition cli_world :: "string option \<Rightarrow> string list option \<Rightarrow> exn + response \<Rightarrow> world" where
  \<comment> \<open>The command line parses to the given command and \<open>--params\<close>, startup goes through.\<close>
  "cli_world c ps net = world0 (Inr (args0 c ps)) (Inr settings0) net"


section \<open>Facts about the library model\<close>

lemma raise_for_status_None:
  "(raise_for_status r = None) = (\<not> (400 \<le> status_code r \<and> status_code r < 600))"
  by (auto simp: raise_for_status_def)

lemma raise_for_status_Some:
  "400 \<le> status_code r \<Longrightarrow> status_code r < 600 \<Longrightarrow>
   raise_for_status r =
     Some (RequestException
       (str_int (status_code r)
          @ (if status_code r < 500 then '' Client Error: '' else '' Server Error: '')
          @ reason r @ '' for url: '' @ url r)
       (Some r))"
  by (auto simp: raise_for_status_def)

lemma str_int_404: "str_int 404 = ''404''"
  by code_simp

lemmas sample_defs =
  state0_def resp_ok_def resp_ok_html_def resp_not_found_def resp_not_modified_def
  resp_multiple_choices_def settings0_def service0_def loads0_def world0_def args0_def
  ping_call_def get_call_def

lemmas run_defs =
  ping_def get_with_params_def Session_get_def try_except_def get_url_def Response_json_def
  Response_bool_def

section \<open>ping\<close>

text \<open>
  C4. When the GET of \<open>ping\<close> yields a response with a 2xx status, the envelope has
  \<open>success = True\<close>, the status code and the headers of the response, and the message
  \<open>Successfully connected to <url>\<close>.
\<close>

theorem ping_success:
  assumes "session_get w (ping_call svc) = Inr r"
    and "200 \<le> status_code r" and "status_code r < 300"
  shows "fst (ping w svc s) =
           Inr \<lparr>status = Some (status_code r), headers_env = headers r, success = True,
                message = ''Successfully connected to '' @ base_url svc @ ''/get''\<rparr>"
proof -
  have "raise_for_status r = None"
    using assms by (simp add: raise_for_status_None)
  with assms(1) show ?thesis
    by (simp add: run_defs ping_call_def)
qed

theorem ping_success_witness:
  "session_get (world0 (Inl KeyboardInterrupt) (Inl KeyboardInterrupt) (Inr resp_ok))
       (ping_call service0) = Inr resp_ok
   \<and> 200 \<le> status_code resp_ok \<and> status_code resp_ok < 300
   \<and> fst (ping (world0 (Inl KeyboardInterrupt) (Inl KeyboardInterrupt) (Inr resp_ok)) service0 state0) =
       Inr \<lparr>status = Some 200, headers_env = [(''Content-Type'', ''application/json'')],
            success = True, message = ''Successfully connected to https://x/get''\<rparr>"
proof -
  have h: "session_get (world0 (Inl KeyboardInterrupt) (Inl KeyboardInterrupt) (Inr resp_ok))
             (ping_call service0) = Inr resp_ok"
    "200 \<le> status_code resp_ok" "status_code resp_ok < 300"
    by (simp_all add: sample_defs)
  from ping_success [OF h, of state0] h show ?thesis
    by (simp add: resp_ok_def service0_def)
qed

text \<open>
  C10. The result of \<open>ping\<close> does not depend on the body: two 2xx responses with the
  same status code and headers give the same result (envelope and trace), with
  \<open>success = True\<close>, whatever their bodies, and whatever the JSON decoder of either
  world makes of them.
\<close>

theorem ping_ignores_body:
  assumes "session_get w1 (ping_call svc) = Inr r1"
    and "session_get w2 (ping_call svc) = Inr r2"
    and "200 \<le> status_code r1" and "status_code r1 < 300"
    and "status_code r2 = status_code r1" and "headers r2 = headers r1"
  shows "ping w1 svc s = ping w2 svc s \<and> (\<exists>e. fst (ping w1 svc s) = Inr e \<and> success e)"
proof -
  have "raise_for_status r1 = None" "raise_for_status r2 = None"
    using assms by (simp_all add: raise_for_status_None)
  with assms show ?thesis
    by (simp add: run_defs ping_call_def)
qed

theorem ping_ignores_body_witness:
  "session_get (world0 (Inl KeyboardInterrupt) (Inl KeyboardInterrupt) (Inr resp_ok))
       (ping_call service0) = Inr resp_ok
   \<and> session_get (world0 (Inl KeyboardInterrupt) (Inl KeyboardInterrupt) (Inr resp_ok_html))
       (ping_call service0) = Inr resp_ok_html
   \<and> 200 \<le> status_code resp_ok \<and> status_code resp_ok < 300
   \<and> status_code resp_ok_html = status_code resp_ok \<and> headers resp_ok_html = headers resp_ok
   \<and> content resp_ok_html \<noteq> content resp_ok
   \<and> json_loads (world0 (Inl KeyboardInterrupt) (Inl KeyboardInterrupt) (Inr resp_ok_html))
        (content resp_ok_html) = Inl ''Expecting value''
   \<and> ping (world0 (Inl KeyboardInterrupt) (Inl KeyboardInterrupt) (Inr resp_ok)) service0 state0
      = ping (world0 (Inl KeyboardInterrupt) (Inl KeyboardInterrupt) (Inr resp_ok_html)) service0 state0"
proof -
  have h: "session_get (world0 (Inl KeyboardInterrupt) (Inl KeyboardInterrupt) (Inr resp_ok))
             (ping_call service0) = Inr resp_ok"
    "session_get (world0 (Inl KeyboardInterrupt) (Inl KeyboardInterrupt) (Inr resp_ok_html))
             (ping_call service0) = Inr resp_ok_html"
    "200 \<le> status_code resp_ok" "status_code resp_ok < 300"
    "status_code resp_ok_html = status_code resp_ok" "headers resp_ok_html = headers resp_ok"
    by (simp_all add: sample_defs)
  have c: "content resp_ok_html \<noteq> content resp_ok"
    "json_loads (world0 (Inl KeyboardInterrupt) (Inl KeyboardInterrupt) (Inr resp_ok_html))
        (content resp_ok_html) = Inl ''Expecting value''"
    by (simp_all add: sample_defs)
  from ping_ignores_body [OF h, of state0] h c show ?thesis
    by blast
qed

text \<open>
  C1, as the code has it. When the GET of \<open>ping\<close> raises a request exception, or
  yields a response whose status lies from 400 to 599 (the statuses
  \<open>raise_for_status\<close> rejects), \<open>ping\<close> does not raise: it returns an envelope with
  \<open>success = False\<close>, with the status code of the response the failure carries
  (\<open>None\<close> when it carries none), and with the message
  \<open>Connection to <url> failed: <cause>\<close>. The headers are empty when the failure
  carries no response, and are those of the carried response when its status lies
  outside 400 to 599. Nothing is said here of the headers for a status from 400 to
  599.
\<close>

theorem ping_absorbs_failure:
  "(session_get w (ping_call svc) = Inl (RequestException m ro) \<longrightarrow>
      (\<exists>hs. fst (ping w svc s) =
              Inr \<lparr>status = map_option status_code ro, headers_env = hs, success = False,
                   message = ''Connection to '' @ base_url svc @ ''/get'' @ '' failed: '' @ m\<rparr>
            \<and> (ro = None \<longrightarrow> hs = [])
            \<and> (\<forall>r'. ro = Some r' \<and> \<not> (400 \<le> status_code r' \<and> status_code r' < 600)
                   \<longrightarrow> hs = headers r')))
   \<and> (session_get w (ping_call svc) = Inr r \<and> 400 \<le> status_code r \<and> status_code r < 600 \<longrightarrow>
      (\<exists>hs. fst (ping w svc s) =
              Inr \<lparr>status = Some (status_code r), headers_env = hs, success = False,
                   message = ''Connection to '' @ base_url svc @ ''/get'' @ '' failed: ''
                     @ str_int (status_code r)
                     @ (if status_code r < 500 then '' Client Error: '' else '' Server Error: '')
                     @ reason r @ '' for url: '' @ url r\<rparr>))"
proof (intro conjI impI)
  assume "session_get w (ping_call svc) = Inl (RequestException m ro)"
  then show "\<exists>hs. fst (ping w svc s) =
              Inr \<lparr>status = map_option status_code ro, headers_env = hs, success = False,
                   message = ''Connection to '' @ base_url svc @ ''/get'' @ '' failed: '' @ m\<rparr>
            \<and> (ro = None \<longrightarrow> hs = [])
            \<and> (\<forall>r'. ro = Some r' \<and> \<not> (400 \<le> status_code r' \<and> status_code r' < 600)
                   \<longrightarrow> hs = headers r')"
    by (cases ro) (auto simp add: run_defs ping_call_def raise_for_status_None)
next
  assume a: "session_get w (ping_call svc) = Inr r \<and> 400 \<le> status_code r \<and> status_code r < 600"
  then have "raise_for_status r =
     Some (RequestException
       (str_int (status_code r)
          @ (if status_code r < 500 then '' Client Error: '' else '' Server Error: '')
          @ reason r @ '' for url: '' @ url r)
       (Some r))"
    by (simp add: raise_for_status_Some)
  with a show "\<exists>hs. fst (ping w svc s) =
              Inr \<lparr>status = Some (status_code r), headers_env = hs, success = False,
                   message = ''Connection to '' @ base_url svc @ ''/get'' @ '' failed: ''
                     @ str_int (status_code r)
                     @ (if status_code r < 500 then '' Client Error: '' else '' Server Error: '')
                     @ reason r @ '' for url: '' @ url r\<rparr>"
    by (simp add: ping_def Session_get_def try_except_def get_url_def ping_call_def)
qed

theorem ping_absorbs_failure_witness:
  "session_get (world0 (Inl KeyboardInterrupt) (Inl KeyboardInterrupt)
        (Inl (RequestException ''Network timeout'' None))) (ping_call service0)
      = Inl (RequestException ''Network timeout'' None)
   \<and> fst (ping (world0 (Inl KeyboardInterrupt) (Inl KeyboardInterrupt)
        (Inl (RequestException ''Network timeout'' None))) service0 state0)
      = Inr \<lparr>status = None, headers_env = [], success = False,
             message = ''Connection to https://x/get failed: Network timeout''\<rparr>
   \<and> session_get (world0 (Inl KeyboardInterrupt) (Inl KeyboardInterrupt) (Inr resp_not_found))
        (ping_call service0) = Inr resp_not_found
   \<and> 400 \<le> status_code resp_not_found \<and> status_code resp_not_found < 600
   \<and> status (projr (fst (ping (world0 (Inl KeyboardInterrupt) (Inl KeyboardInterrupt)
        (Inr resp_not_found)) service0 state0))) = Some 404
   \<and> \<not> success (projr (fst (ping (world0 (Inl KeyboardInterrupt) (Inl KeyboardInterrupt)
        (Inr resp_not_found)) service0 state0)))"
proof -
  have h1: "session_get (world0 (Inl KeyboardInterrupt) (Inl KeyboardInterrupt)
        (Inl (RequestException ''Network timeout'' None))) (ping_call service0)
      = Inl (RequestException ''Network timeout'' None)"
    by (simp add: sample_defs)
  have h2: "session_get (world0 (Inl KeyboardInterrupt) (Inl KeyboardInterrupt) (Inr resp_not_found))
        (ping_call service0) = Inr resp_not_found
      \<and> 400 \<le> status_code resp_not_found \<and> status_code resp_not_found < 600"
    by (simp add: sample_defs)
  note t1 = ping_absorbs_failure [where w = "world0 (Inl KeyboardInterrupt) (Inl KeyboardInterrupt)
        (Inl (RequestException ''Network timeout'' None))" and svc = service0 and s = state0
        and m = "''Network timeout''" and ro = None, THEN conjunct1, rule_format, OF h1]
  note t2 = ping_absorbs_failure [where w = "world0 (Inl KeyboardInterrupt) (Inl KeyboardInterrupt)
        (Inr resp_not_found)" and svc = service0 and s = state0 and r = resp_not_found,
        THEN conjunct2, rule_format, OF h2]
  from t1 have c1: "fst (ping (world0 (Inl KeyboardInterrupt) (Inl KeyboardInterrupt)
        (Inl (RequestException ''Network timeout'' None))) service0 state0)
      = Inr \<lparr>status = None, headers_env = [], success = False,
             message = ''Connection to https://x/get failed: Network timeout''\<rparr>"
    by (auto simp: service0_def)
  from t2 have c2: "status (projr (fst (ping (world0 (Inl KeyboardInterrupt) (Inl KeyboardInterrupt)
        (Inr resp_not_found)) service0 state0))) = Some 404
      \<and> \<not> success (projr (fst (ping (world0 (Inl KeyboardInterrupt) (Inl KeyboardInterrupt)
        (Inr resp_not_found)) service0 state0)))"
    by (auto simp: resp_not_found_def)
  from h1 h2 c1 c2 show ?thesis by blast
qed

text \<open>
  C1 as stated fails twice. A 304 response is not a 2xx response, yet
  \<open>raise_for_status\<close> passes it and \<open>ping\<close> reports \<open>success = True\<close>. A 404 response
  has headers, yet the envelope's headers are empty: \<open>e.response\<close> is tested for
  truth, and a response with an error status is false.
\<close>

theorem ping_failure_counterexample:
  "\<not> (200 \<le> status_code resp_not_modified \<and> status_code resp_not_modified < 300)
   \<and> fst (ping (world0 (Inl KeyboardInterrupt) (Inl KeyboardInterrupt) (Inr resp_not_modified))
            service0 state0)
      = Inr \<lparr>status = Some 304, headers_env = [(''Server'', ''nginx'')], success = True,
             message = ''Successfully connected to https://x/get''\<rparr>
   \<and> headers resp_not_found = [(''Server'', ''nginx'')]
   \<and> fst (ping (world0 (Inl KeyboardInterrupt) (Inl KeyboardInterrupt) (Inr resp_not_found))
            service0 state0)
      = Inr \<lparr>status = Some 404, headers_env = [], success = False,
             message = ''Connection to https://x/get failed: 404 Client Error: Not Found for url: https://x/get''\<rparr>"
  by (simp add: sample_defs run_defs raise_for_status_def str_int_404)


section \<open>get\_with\_params\<close>

text \<open>
  C2, as the code has it. When the GET of \<open>get_with_params\<close> yields a 2xx response
  whose body decodes, the call returns the decoded JSON unchanged. When the GET
  raises a request exception, or yields a response whose status lies from 400 to
  599, the call raises a \<open>RequestException\<close> whose message is
  \<open>GET request to <url> failed: <cause>\<close>: the failure is not turned into a result.
\<close>

theorem get_with_params_result:
  "(session_get w (get_call svc ps) = Inr r \<and> 200 \<le> status_code r \<and> status_code r < 300
      \<and> json_loads w (content r) = Inr j \<longrightarrow>
      fst (get_with_params w svc ps s) = Inr j)
   \<and> (session_get w (get_call svc ps) = Inl (RequestException m ro) \<longrightarrow>
      fst (get_with_params w svc ps s) =
        Inl (RequestException
               (''GET request to '' @ base_url svc @ ''/get'' @ '' failed: '' @ m) None))
   \<and> (session_get w (get_call svc ps) = Inr r \<and> 400 \<le> status_code r \<and> status_code r < 600 \<longrightarrow>
      fst (get_with_params w svc ps s) =
        Inl (RequestException
               (''GET request to '' @ base_url svc @ ''/get'' @ '' failed: ''
                  @ str_int (status_code r)
                  @ (if status_code r < 500 then '' Client Error: '' else '' Server Error: '')
                  @ reason r @ '' for url: '' @ url r) None))"
proof (intro conjI impI)
  assume a: "session_get w (get_call svc ps) = Inr r \<and> 200 \<le> status_code r
      \<and> status_code r < 300 \<and> json_loads w (content r) = Inr j"
  then have "raise_for_status r = None"
    by (simp add: raise_for_status_None)
  with a show "fst (get_with_params w svc ps s) = Inr j"
    by (simp add: run_defs get_call_def)
next
  assume "session_get w (get_call svc ps) = Inl (RequestException m ro)"
  then show "fst (get_with_params w svc ps s) =
        Inl (RequestException
               (''GET request to '' @ base_url svc @ ''/get'' @ '' failed: '' @ m) None)"
    by (simp add: run_defs get_call_def)
next
  assume a: "session_get w (get_call svc ps) = Inr r \<and> 400 \<le> status_code r \<and> status_code r < 600"
  then have "raise_for_status r =
     Some (RequestException
       (str_int (status_code r)
          @ (if status_code r < 500 then '' Client Error: '' else '' Server Error: '')
          @ reason r @ '' for url: '' @ url r)
       (Some r))"
    by (simp add: raise_for_status_Some)
  with a show "fst (get_with_params w svc ps s) =
        Inl (RequestException
               (''GET request to '' @ base_url svc @ ''/get'' @ '' failed: ''
                  @ str_int (status_code r)
                  @ (if status_code r < 500 then '' Client Error: '' else '' Server Error: '')
                  @ reason r @ '' for url: '' @ url r) None)"
    by (simp add: get_with_params_def Session_get_def try_except_def get_url_def get_call_def)
qed

theorem get_with_params_result_witness:
  "session_get (world0 (Inl KeyboardInterrupt) (Inl KeyboardInterrupt) (Inr resp_ok))
       (get_call service0 (Some [(''k'', PStr ''v'')])) = Inr resp_ok
   \<and> 200 \<le> status_code resp_ok \<and> status_code resp_ok < 300
   \<and> json_loads (world0 (Inl KeyboardInterrupt) (Inl KeyboardInterrupt) (Inr resp_ok))
        (content resp_ok) = Inr (JObject [])
   \<and> fst (get_with_params (world0 (Inl KeyboardInterrupt) (Inl KeyboardInterrupt) (Inr resp_ok))
        service0 (Some [(''k'', PStr ''v'')]) state0) = Inr (JObject [])
   \<and> session_get (world0 (Inl KeyboardInterrupt) (Inl KeyboardInterrupt)
        (Inl (RequestException ''Connection error'' None)))
       (get_call service0 (Some [(''k'', PStr ''v'')])) = Inl (RequestException ''Connection error'' None)
   \<and> fst (get_with_params (world0 (Inl KeyboardInterrupt) (Inl KeyboardInterrupt)
        (Inl (RequestException ''Connection error'' None))) service0 (Some [(''k'', PStr ''v'')]) state0)
      = Inl (RequestException ''GET request to https://x/get failed: Connection error'' None)
   \<and> session_get (world0 (Inl KeyboardInterrupt) (Inl KeyboardInterrupt) (Inr resp_not_found))
       (get_call service0 None) = Inr resp_not_found
   \<and> 400 \<le> status_code resp_not_found \<and> status_code resp_not_found < 600
   \<and> fst (get_with_params (world0 (Inl KeyboardInterrupt) (Inl KeyboardInterrupt)
        (Inr resp_not_found)) service0 None state0)
      = Inl (RequestException
          ''GET request to https://x/get failed: 404 Client Error: Not Found for url: https://x/get''
          None)"
proof -
  have h1: "session_get (world0 (Inl KeyboardInterrupt) (Inl KeyboardInterrupt) (Inr resp_ok))
       (get_call service0 (Some [(''k'', PStr ''v'')])) = Inr resp_ok
     \<and> 200 \<le> status_code resp_ok \<and> status_code resp_ok < 300
     \<and> json_loads (world0 (Inl KeyboardInterrupt) (Inl KeyboardInterrupt) (Inr resp_ok))
        (content resp_ok) = Inr (JObject [])"
    by (simp add: sample_defs)
  have h2: "session_get (world0 (Inl KeyboardInterrupt) (Inl KeyboardInterrupt)
        (Inl (RequestException ''Connection error'' None)))
       (get_call service0 (Some [(''k'', PStr ''v'')])) = Inl (RequestException ''Connection error'' None)"
    by (simp add: sample_defs)
  have h3: "session_get (world0 (Inl KeyboardInterrupt) (Inl KeyboardInterrupt) (Inr resp_not_found))
       (get_call service0 None) = Inr resp_not_found
     \<and> 400 \<le> status_code resp_not_found \<and> status_code resp_not_found < 600"
    by (simp add: sample_defs)
  note t1 = get_with_params_result [where s = state0, THEN conjunct1, rule_format, OF h1]
  note t2 = get_with_params_result [where s = state0, THEN conjunct2, THEN conjunct1,
      rule_format, OF h2]
  note t3 = get_with_params_result [where s = state0, THEN conjunct2, THEN conjunct2,
      rule_format, OF h3]
  from t2 have c2: "fst (get_with_params (world0 (Inl KeyboardInterrupt) (Inl KeyboardInterrupt)
        (Inl (RequestException ''Connection error'' None))) service0 (Some [(''k'', PStr ''v'')]) state0)
      = Inl (RequestException ''GET request to https://x/get failed: Connection error'' None)"
    by (simp add: service0_def)
  from t3 have c3: "fst (get_with_params (world0 (Inl KeyboardInterrupt) (Inl KeyboardInterrupt)
        (Inr resp_not_found)) service0 None state0)
      = Inl (RequestException
          ''GET request to https://x/get failed: 404 Client Error: Not Found for url: https://x/get''
          None)"
    by (simp add: service0_def resp_not_found_def str_int_404)
  from h1 h2 h3 t1 c2 c3 show ?thesis by blast
qed

text \<open>
  C2 as stated fails for a status that is neither 2xx nor 4xx/5xx: a 300 response with
  a JSON body passes \<open>raise_for_status\<close>, and the call returns the decoded body
  instead of raising.
\<close>

theorem get_with_params_counterexample:
  "\<not> (200 \<le> status_code resp_multiple_choices \<and> status_code resp_multiple_choices < 300)
   \<and> fst (get_with_params
            (world0 (Inl KeyboardInterrupt) (Inl KeyboardInterrupt) (Inr resp_multiple_choices))
            service0 None state0)
      = Inr (JObject [])"
  by (simp add: sample_defs run_defs raise_for_status_def)

section \<open>The constructor\<close>

lemma rstrip_no_trailing: "rstrip c s \<noteq> p @ [c]"
proof
  assume "rstrip c s = p @ [c]"
  then have "dropWhile (\<lambda>x. x = c) (rev s) = c # rev p"
    by (metis rev.simps(2) rev_rev_ident rev_swap rstrip_def)
  then have "hd (dropWhile (\<lambda>x. x = c) (rev s)) = c"
    and "dropWhile (\<lambda>x. x = c) (rev s) \<noteq> []"
    by simp_all
  then show False
    using hd_dropWhile [of "\<lambda>x. x = c" "rev s"] by simp
qed

lemma rstrip_decomp: "s = rstrip c s @ replicate (length (takeWhile (\<lambda>x. x = c) (rev s))) c"
proof -
  have tw: "takeWhile (\<lambda>x. x = c) xs = replicate (length (takeWhile (\<lambda>x. x = c) xs)) c" for xs
    by (induction xs) auto
  have "rev s = takeWhile (\<lambda>x. x = c) (rev s) @ dropWhile (\<lambda>x. x = c) (rev s)"
    by simp
  then have "s = rev (dropWhile (\<lambda>x. x = c) (rev s)) @ rev (takeWhile (\<lambda>x. x = c) (rev s))"
    by (metis rev_append rev_rev_ident)
  also have "rev (takeWhile (\<lambda>x. x = c) (rev s))
      = replicate (length (takeWhile (\<lambda>x. x = c) (rev s))) c"
    using tw [of "rev s"] by (metis rev_replicate)
  finally show ?thesis
    by (simp add: rstrip_def)
qed

lemma rstrip_append_c: "rstrip c (s @ [c]) = rstrip c s"
  by (simp add: rstrip_def)

text \<open>
  C6. A base URL given with a trailing \<open>/\<close> is stored without it
  (\<open>https://x/\<close> becomes \<open>https://x\<close>): the stored base URL is the argument less its
  trailing slashes, and never ends with \<open>/\<close>. Every request \<open>ping\<close> and
  \<open>get_with_params\<close> issue is one request, to \<open>{base_url}/get\<close>.
\<close>

theorem base_url_normalised:
  "base_url (ExampleService_init ''https://x/'' t) = ''https://x''
   \<and> base_url (ExampleService_init (b @ ''/'') t) = base_url (ExampleService_init b t)
   \<and> (\<exists>n. b = base_url (ExampleService_init b t) @ replicate n CHR ''/'')
   \<and> (\<forall>p. base_url (ExampleService_init b t) \<noteq> p @ ''/'')
   \<and> calls (snd (ping w svc s)) = calls s @ [ping_call svc]
   \<and> calls (snd (get_with_params w svc ps s)) = calls s @ [get_call svc ps]
   \<and> call_url (ping_call svc) = base_url svc @ ''/get''
   \<and> call_url (get_call svc ps) = base_url svc @ ''/get''"
proof (intro conjI)
  show "base_url (ExampleService_init ''https://x/'' t) = ''https://x''"
    by (simp add: ExampleService_init_def rstrip_def)
  show "base_url (ExampleService_init (b @ ''/'') t) = base_url (ExampleService_init b t)"
    by (simp add: ExampleService_init_def rstrip_append_c)
  show "\<exists>n. b = base_url (ExampleService_init b t) @ replicate n CHR ''/''"
    using rstrip_decomp [of b "CHR ''/''"] by (auto simp: ExampleService_init_def)
  show "\<forall>p. base_url (ExampleService_init b t) \<noteq> p @ ''/''"
    by (simp add: ExampleService_init_def rstrip_no_trailing)
  show "calls (snd (ping w svc s)) = calls s @ [ping_call svc]"
    by (simp add: run_defs ping_call_def split: sum.splits option.splits exn.splits)
  show "calls (snd (get_with_params w svc ps s)) = calls s @ [get_call svc ps]"
    by (simp add: run_defs get_call_def split: sum.splits option.splits exn.splits)
qed (simp_all add: ping_call_def get_call_def)

theorem base_url_normalised_witness:
  "base_url (ExampleService_init ''https://api.example.com//'' (Some 60)) = ''https://api.example.com''
   \<and> calls (snd (ping (world0 (Inl KeyboardInterrupt) (Inl KeyboardInterrupt) (Inr resp_ok))
        (ExampleService_init ''https://x/'' None) state0))
      = [\<lparr>call_url = ''https://x/get'', call_params = None, call_timeout = 30\<rparr>]
   \<and> calls (snd (get_with_params (world0 (Inl KeyboardInterrupt) (Inl KeyboardInterrupt) (Inr resp_ok))
        (ExampleService_init ''https://x/'' None) (Some [(''k'', PStr ''v'')]) state0))
      = [\<lparr>call_url = ''https://x/get'', call_params = Some [(''k'', PStr ''v'')],
           call_timeout = 30\<rparr>]"
proof -
  note t = base_url_normalised [where b = "''https://api.example.com/''" and t = "Some 60"
      and w = "world0 (Inl KeyboardInterrupt) (Inl KeyboardInterrupt) (Inr resp_ok)"
      and svc = "ExampleService_init ''https://x/'' None" and s = state0
      and ps = "Some [(''k'', PStr ''v'')]"]
  from t have "base_url (ExampleService_init ''https://api.example.com//'' (Some 60))
      = base_url (ExampleService_init ''https://api.example.com/'' (Some 60))"
    by simp
  moreover have "base_url (ExampleService_init ''https://api.example.com/'' (Some 60))
      = ''https://api.example.com''"
    by (simp add: ExampleService_init_def rstrip_def)
  moreover from t have "calls (snd (ping (world0 (Inl KeyboardInterrupt) (Inl KeyboardInterrupt) (Inr resp_ok))
        (ExampleService_init ''https://x/'' None) state0))
      = [\<lparr>call_url = ''https://x/get'', call_params = None, call_timeout = 30\<rparr>]"
    by (simp add: state0_def ping_call_def ExampleService_init_def rstrip_def)
  moreover from t have "calls (snd (get_with_params (world0 (Inl KeyboardInterrupt) (Inl KeyboardInterrupt) (Inr resp_ok))
        (ExampleService_init ''https://x/'' None) (Some [(''k'', PStr ''v'')]) state0))
      = [\<lparr>call_url = ''https://x/get'', call_params = Some [(''k'', PStr ''v'')],
           call_timeout = 30\<rparr>]"
    by (simp add: state0_def get_call_def ExampleService_init_def rstrip_def)
  ultimately show ?thesis by simp
qed

text \<open>
  C8, as the code has it. The constructor stores the timeout it is given, unchanged
  and unchecked, and 30 when none is given; so the stored timeout is positive exactly
  when the argument is.
\<close>

theorem timeout_stored_as_given:
  "timeout (ExampleService_init b (Some t)) = t
   \<and> timeout (ExampleService_init b None) = 30
   \<and> (0 < timeout (ExampleService_init b (Some t))) = (0 < t)"
  by (simp add: ExampleService_init_def)

theorem timeout_stored_as_given_witness:
  "timeout (ExampleService_init ''https://api.example.com/'' (Some 60)) = 60
   \<and> timeout (ExampleService_init ''https://httpbin.org'' None) = 30"
  using timeout_stored_as_given [of "''https://api.example.com/''" 60]
    timeout_stored_as_given [of "''https://httpbin.org''" 0]
  by simp

text \<open>
  C8 as stated fails: the constructor accepts a timeout of \<open>-5\<close> (or 0) and stores it.
\<close>

theorem timeout_positive_counterexample:
  "timeout (ExampleService_init ''https://x'' (Some (- 5))) = - 5
   \<and> \<not> 0 < timeout (ExampleService_init ''https://x'' (Some (- 5)))"
  by (simp add: ExampleService_init_def)


section \<open>parse\_params\<close>

subsection \<open>Stripping and splitting\<close>

lemma eq_not_space: "\<not> isspace_char CHR ''=''"
  by (simp add: isspace_char_def)

lemma strip_empty_iff: "(strip s = []) = list_all isspace_char s"
proof -
  have "(strip s = []) = (dropWhile isspace_char (rev (dropWhile isspace_char s)) = [])"
    by (simp add: strip_def)
  also have "\<dots> = (\<forall>x \<in> set (dropWhile isspace_char s). isspace_char x)"
    by (simp add: dropWhile_eq_Nil_conv)
  also have "\<dots> = (dropWhile isspace_char s = [])"
    by (metis dropWhile_eq_Nil_conv dropWhile_idem)
  also have "\<dots> = list_all isspace_char s"
    by (simp add: dropWhile_eq_Nil_conv list_all_iff)
  finally show ?thesis .
qed

lemma strip_decomp:
  "\<exists>a b. s = a @ strip s @ b \<and> list_all isspace_char a \<and> list_all isspace_char b"
proof -
  let ?t = "dropWhile isspace_char s"
  have 1: "s = takeWhile isspace_char s @ ?t"
    by simp
  have "rev ?t = takeWhile isspace_char (rev ?t) @ dropWhile isspace_char (rev ?t)"
    by simp
  then have 2: "?t = strip s @ rev (takeWhile isspace_char (rev ?t))"
    unfolding strip_def by (metis rev_append rev_rev_ident)
  have 3: "list_all isspace_char (takeWhile isspace_char s)"
    by (simp add: list_all_iff) (metis set_takeWhileD)
  have 4: "list_all isspace_char (rev (takeWhile isspace_char (rev ?t)))"
    by (simp add: list_all_iff) (metis set_takeWhileD)
  from 1 2 have "s = takeWhile isspace_char s @ strip s @ rev (takeWhile isspace_char (rev ?t))"
    by metis
  with 3 4 show ?thesis by blast
qed

lemma strip_ends:
  assumes "strip s \<noteq> []"
  shows "\<not> isspace_char (hd (strip s)) \<and> \<not> isspace_char (last (strip s))"
proof -
  let ?t = "dropWhile isspace_char s"
  let ?u = "dropWhile isspace_char (rev ?t)"
  from assms have u: "?u \<noteq> []"
    by (simp add: strip_def)
  then have "\<not> isspace_char (hd ?u)"
    by (rule hd_dropWhile)
  then have l: "\<not> isspace_char (last (strip s))"
    using u by (simp add: strip_def last_rev)
  from u have t: "?t \<noteq> []"
    by (cases "?t") auto
  then have ht: "\<not> isspace_char (hd ?t)"
    by (rule hd_dropWhile)
  obtain b where "?t = strip s @ b"
    by (metis append_take_drop_id rev_append rev_rev_ident strip_def takeWhile_dropWhile_id)
  with assms have "hd (strip s) = hd ?t"
    by (metis hd_append2)
  with ht l show ?thesis by simp
qed

lemma split_eq_token:
  "CHR ''='' \<notin> set k \<Longrightarrow> split_eq (k @ CHR ''='' # v) = (k, v)"
  by (simp add: split_eq_def takeWhile_append dropWhile_append)

subsection \<open>Errors of the loop\<close>

lemma coerce_error: "coerce v = Inl e \<Longrightarrow> is_ValueError e"
  by (auto simp: coerce_def py_int_def py_float_def Let_def split: if_splits)

lemma parse_loop_error: "parse_loop acc ps = Inl e \<Longrightarrow> is_ValueError e"
proof (induction acc ps rule: parse_loop.induct)
  case (1 acc)
  then show ?case by simp
next
  case (2 acc param rest)
  then show ?case
    by (auto simp: Let_def split: if_splits sum.splits dest: coerce_error)
qed

lemma parse_params_error: "parse_params ps = Inl e \<Longrightarrow> is_ValueError e"
  by (auto simp: parse_params_def split: if_splits dest: parse_loop_error)

lemma parse_loop_malformed:
  "p \<in> set ps \<Longrightarrow> malformed p \<Longrightarrow> \<exists>e. parse_loop acc ps = Inl e"
proof (induction acc ps rule: parse_loop.induct)
  case (1 acc)
  then show ?case by simp
next
  case (2 acc param rest)
  show ?case
  proof (cases "p = param")
    case True
    with "2.prems" show ?thesis
      by (auto simp: malformed_def Let_def)
  next
    case False
    with "2.prems" have "p \<in> set rest" by simp
    with 2 show ?thesis
      by (auto simp: Let_def split: sum.splits)
  qed
qed

lemma parse_params_malformed:
  assumes "p \<in> set ps" and "malformed p"
  shows "\<exists>e. parse_params ps = Inl e \<and> is_ValueError e"
proof -
  from assms obtain e where "parse_loop [] ps = Inl e"
    using parse_loop_malformed by blast
  moreover from assms(1) have "ps \<noteq> []" by auto
  ultimately show ?thesis
    using parse_loop_error by (auto simp: parse_params_def)
qed

lemma malformed_token:
  assumes "CHR ''='' \<notin> set p \<or> (\<exists>k v. p = k @ ''='' @ v \<and> strip k = [])"
  shows "malformed p"
proof (cases "CHR ''='' \<notin> set p")
  case True
  then show ?thesis by (simp add: malformed_def)
next
  case False
  with assms obtain k v where kv: "p = k @ ''='' @ v" "strip k = []" by blast
  then have "list_all isspace_char k"
    by (simp add: strip_empty_iff)
  then have "CHR ''='' \<notin> set k"
    using eq_not_space by (auto simp: list_all_iff)
  with kv show ?thesis
    by (simp add: malformed_def split_eq_token)
qed

subsection \<open>The order of the coercions\<close>

lemma isdigit_without_superscripts:
  assumes "\<forall>c \<in> set v. isdigit_char c \<longrightarrow> isdecimal_char c"
  shows "isdigit v = (v \<noteq> [] \<and> list_all isdecimal_char v)"
proof -
  have "isdecimal_char c \<Longrightarrow> isdigit_char c" for c
    by (simp add: isdecimal_char_def isdigit_char_def Let_def)
  with assms show ?thesis
    by (auto simp: isdigit_def list_all_iff)
qed

text \<open>
  On a value without the superscript digits the chain tries boolean, integer, float and
  string in that order, and fails only in the integer branch, on more than 4300 digits.
\<close>

lemma coerce_without_superscripts:
  assumes "\<forall>c \<in> set v. isdigit_char c \<longrightarrow> isdecimal_char c"
  shows "coerce v =
    (if lower v = ''true'' then Inr (PBool True)
     else if lower v = ''false'' then Inr (PBool False)
     else if v \<noteq> [] \<and> list_all isdecimal_char v
     then (if length v \<le> 4300 then Inr (PInt (decimal_value v))
           else Inl (InvalidLiteral Builtin_int v))
     else if replace_dot v \<noteq> [] \<and> list_all isdecimal_char (replace_dot v) \<and> count_dot v = 1
     then Inr (PFloat (of_int (decimal_value (replace_dot v))
                 / of_int (10 ^ length (tl (dropWhile (\<lambda>c. c \<noteq> CHR ''.'') v)))))
     else Inr (PStr v))"
proof -
  from assms have "\<forall>c \<in> set (replace_dot v). isdigit_char c \<longrightarrow> isdecimal_char c"
    by (simp add: replace_dot_def)
  then have d: "isdigit (replace_dot v)
      = (replace_dot v \<noteq> [] \<and> list_all isdecimal_char (replace_dot v))"
    by (rule isdigit_without_superscripts)
  from assms have iv: "isdigit v = (v \<noteq> [] \<and> list_all isdecimal_char v)"
    by (rule isdigit_without_superscripts)
  show ?thesis
    unfolding coerce_def iv d py_int_def py_float_def Let_def
    by auto
qed

lemma parse_params_examples:
  "parse_params [''a=true''] = Inr [(''a'', PBool True)]"
  "parse_params [''a=FALSE''] = Inr [(''a'', PBool False)]"
  "parse_params [''a=42''] = Inr [(''a'', PInt 42)]"
  "parse_params [''a=3.14''] = Inr [(''a'', PFloat (314 / 100))]"
  "parse_params [''a=hello''] = Inr [(''a'', PStr ''hello'')]"
  by code_simp+

text \<open>
  C3. The claim is that every well-formed token parses. It does not: \<open>str.isdigit\<close>
  accepts the superscript two (U+00B2), \<open>int()\<close> does not read it, and the token
  \<open>a=\<close> followed by that character makes \<open>parse_params\<close> raise the \<open>ValueError\<close> of
  \<open>int()\<close> instead of returning a mapping.
\<close>

theorem parse_params_superscript_digit:
  "isdigit [CHR 0xB2]
   \<and> parse_params [''a='' @ [CHR 0xB2]] = Inl (InvalidLiteral Builtin_int [CHR 0xB2])"
  by code_simp

text \<open>
  C9. Key and value are stripped before the empty-key check and the coercion: a token
  \<open>k=v\<close>, at any place in the list, is rejected when \<open>strip k\<close> is empty and otherwise
  stores \<open>coerce (strip v)\<close> under \<open>strip k\<close>. \<open>strip\<close> removes whitespace, and only
  whitespace, from both ends. So \<open>" a = 42 "\<close> gives \<open>{"a": 42}\<close>, and \<open>"  =v"\<close> is
  rejected for its empty key.
\<close>

theorem parse_params_strips:
  "(CHR ''='' \<notin> set k \<longrightarrow>
      parse_loop acc ((k @ ''='' @ v) # rest) =
        (if strip k = [] then Inl (ValueError (''Empty key in parameter: '' @ k @ ''='' @ v))
         else case coerce (strip v) of
                Inl e \<Rightarrow> Inl e
              | Inr x \<Rightarrow> parse_loop (AList.update (strip k) x acc) rest))
   \<and> (CHR ''='' \<notin> set k \<longrightarrow>
      parse_params ((k @ ''='' @ v) # rest) = parse_loop [] ((k @ ''='' @ v) # rest))
   \<and> (\<exists>a b. k = a @ strip k @ b \<and> list_all isspace_char a \<and> list_all isspace_char b)
   \<and> (\<exists>a b. v = a @ strip v @ b \<and> list_all isspace_char a \<and> list_all isspace_char b)
   \<and> (strip k \<noteq> [] \<longrightarrow> \<not> isspace_char (hd (strip k)) \<and> \<not> isspace_char (last (strip k)))
   \<and> (strip v \<noteq> [] \<longrightarrow> \<not> isspace_char (hd (strip v)) \<and> \<not> isspace_char (last (strip v)))
   \<and> parse_params ['' a = 42 ''] = Inr [(''a'', PInt 42)]
   \<and> parse_params [''  =v''] = Inl (ValueError ''Empty key in parameter:   =v'')"
proof (intro conjI impI)
  assume "CHR ''='' \<notin> set k"
  then show "parse_loop acc ((k @ ''='' @ v) # rest) =
        (if strip k = [] then Inl (ValueError (''Empty key in parameter: '' @ k @ ''='' @ v))
         else case coerce (strip v) of
                Inl e \<Rightarrow> Inl e
              | Inr x \<Rightarrow> parse_loop (AList.update (strip k) x acc) rest)"
    by (simp add: split_eq_token Let_def)
next
  show "parse_params ((k @ ''='' @ v) # rest) = parse_loop [] ((k @ ''='' @ v) # rest)"
    by (simp add: parse_params_def)
next
  show "\<exists>a b. k = a @ strip k @ b \<and> list_all isspace_char a \<and> list_all isspace_char b"
    by (rule strip_decomp)
next
  show "\<exists>a b. v = a @ strip v @ b \<and> list_all isspace_char a \<and> list_all isspace_char b"
    by (rule strip_decomp)
next
  assume "strip k \<noteq> []"
  then show "\<not> isspace_char (hd (strip k))" and "\<not> isspace_char (last (strip k))"
    by (simp_all add: strip_ends)
next
  assume "strip v \<noteq> []"
  then show "\<not> isspace_char (hd (strip v))" and "\<not> isspace_char (last (strip v))"
    by (simp_all add: strip_ends)
next
  show "parse_params ['' a = 42 ''] = Inr [(''a'', PInt 42)]"
    by code_simp
next
  show "parse_params [''  =v''] = Inl (ValueError ''Empty key in parameter:   =v'')"
    by code_simp
qed

theorem parse_params_strips_witness:
  "CHR ''='' \<notin> set '' a ''
   \<and> strip '' a '' = ''a'' \<and> strip '' 42 '' = ''42''
   \<and> parse_loop [(''b'', PBool True)] [('' a '' @ ''='' @ '' 42 ''), ''c=x'']
      = parse_loop [(''b'', PBool True), (''a'', PInt 42)] [''c=x'']
   \<and> \<not> isspace_char (hd (strip '' a '')) \<and> \<not> isspace_char (last (strip '' 42 ''))"
proof -
  have h: "CHR ''='' \<notin> set '' a ''"
    by simp
  have s: "strip '' a '' = ''a''" "strip '' 42 '' = ''42''"
    by (simp_all add: strip_def isspace_char_def)
  have c: "coerce ''42'' = Inr (PInt 42)"
    by code_simp
  note t = parse_params_strips [where k = "'' a ''" and v = "'' 42 ''"
      and acc = "[(''b'', PBool True)]" and rest = "[''c=x'']"]
  from t [THEN conjunct1, rule_format, OF h]
  have 1: "parse_loop [(''b'', PBool True)] [('' a '' @ ''='' @ '' 42 ''), ''c=x'']
      = parse_loop [(''b'', PBool True), (''a'', PInt 42)] [''c=x'']"
    by (simp only: s c) simp
  from t s have 2: "\<not> isspace_char (hd (strip '' a ''))" "\<not> isspace_char (last (strip '' 42 ''))"
    by simp_all
  from h s 1 2 show ?thesis by blast
qed


section \<open>The dispatcher\<close>

lemma main_try_started: "started w a cfg \<Longrightarrow> main_try w s = dispatch w a cfg s"
  by (simp add: started_def main_try_def)

lemma main_of_return: "main_try w s = (Inr n, s') \<Longrightarrow> main w s = (Inr n, s')"
  by (simp add: main_def try_except_def)

lemma main_of_interrupt:
  "main_try w s = (Inl KeyboardInterrupt, s') \<Longrightarrow>
   main w s = (Inr 130, py_print PrintCancelled s')"
  by (simp add: main_def try_except_def)

lemma main_of_exception:
  "main_try w s = (Inl e, s') \<Longrightarrow> is_Exception e \<Longrightarrow>
   main w s = (Inr 1, py_print (PrintUnexpected e) s')"
  by (cases e) (simp_all add: main_def try_except_def)

lemma dispatch_none: "command a = None \<Longrightarrow> dispatch w a cfg s = (Inr 1, py_print PrintHelp s)"
  by (simp add: dispatch_def)

lemma dispatch_ping:
  "command a = Some ''ping'' \<Longrightarrow>
   dispatch w a cfg s =
     (case handle_ping_command w (the_service cfg) s of
        (r, s') \<Rightarrow> (r, close (the_service cfg) s'))"
  by (simp add: dispatch_def with_service_def the_service_def)

lemma dispatch_get:
  "command a = Some ''get'' \<Longrightarrow>
   dispatch w a cfg s =
     (case try_except
        (case parse_params (case params a of None \<Rightarrow> [] | Some l \<Rightarrow> l) of
           Inl e \<Rightarrow> (Inl e, s)
         | Inr ps \<Rightarrow> handle_get_command w (the_service cfg) ps s)
        is_ValueError
        (\<lambda>e s'. (Inr 1, py_print (PrintParamError e) s'))
      of (r, s') \<Rightarrow> (r, close (the_service cfg) s'))"
  unfolding the_service_def by (simp add: dispatch_def with_service_def)

lemma handle_ping_result:
  "ping w svc s = (Inr r, s') \<Longrightarrow>
   handle_ping_command w svc s =
     (Inr (if success r then 0 else 1), py_print (PrintEnvelope r) s')"
  by (simp add: handle_ping_command_def try_except_def)

lemma handle_ping_exception:
  "ping w svc s = (Inl e, s') \<Longrightarrow> is_Exception e \<Longrightarrow>
   handle_ping_command w svc s = (Inr 1, py_print (PrintPingError e) s')"
  by (simp add: handle_ping_command_def try_except_def)

lemma handle_ping_interrupt:
  "ping w svc s = (Inl KeyboardInterrupt, s') \<Longrightarrow>
   handle_ping_command w svc s = (Inl KeyboardInterrupt, s')"
  by (simp add: handle_ping_command_def try_except_def)

lemma handle_get_result:
  "get_with_params w svc (if ps = [] then None else Some ps) s = (Inr j, s') \<Longrightarrow>
   handle_get_command w svc ps s = (Inr 0, py_print (PrintJson j) s')"
  by (simp add: handle_get_command_def try_except_def)

lemma handle_get_exception:
  "get_with_params w svc (if ps = [] then None else Some ps) s = (Inl e, s') \<Longrightarrow>
   is_Exception e \<Longrightarrow>
   handle_get_command w svc ps s = (Inr 1, py_print (PrintGetError e) s')"
  by (simp add: handle_get_command_def try_except_def)

lemma handle_get_interrupt:
  "get_with_params w svc (if ps = [] then None else Some ps) s = (Inl KeyboardInterrupt, s') \<Longrightarrow>
   handle_get_command w svc ps s = (Inl KeyboardInterrupt, s')"
  by (simp add: handle_get_command_def try_except_def)

lemma main_of_system_exit:
  "main_try w s = (Inl (SystemExit n), s') \<Longrightarrow> main w s = (Inl (SystemExit n), s')"
  by (simp add: main_def try_except_def)

lemma handle_ping_outcomes:
  "fst (handle_ping_command w svc s) = Inr 0 \<or> fst (handle_ping_command w svc s) = Inr 1
   \<or> (\<exists>e. fst (handle_ping_command w svc s) = Inl e \<and> \<not> is_Exception e)"
  by (auto simp: handle_ping_command_def try_except_def split: prod.splits sum.splits)

lemma handle_get_outcomes:
  "fst (handle_get_command w svc ps s) = Inr 0 \<or> fst (handle_get_command w svc ps s) = Inr 1
   \<or> (\<exists>e. fst (handle_get_command w svc ps s) = Inl e \<and> \<not> is_Exception e)"
  by (auto simp: handle_get_command_def try_except_def split: prod.splits sum.splits)

lemma not_ValueError: "\<not> is_Exception e \<Longrightarrow> \<not> is_ValueError e"
  by (cases e) simp_all

lemma get_branch_outcomes:
  "fst (try_except
        (case parse_params l of
           Inl e \<Rightarrow> (Inl e, s)
         | Inr ps \<Rightarrow> handle_get_command w svc ps s)
        is_ValueError
        (\<lambda>e s'. (Inr 1, py_print (PrintParamError e) s'))) = Inr 0
   \<or> fst (try_except
        (case parse_params l of
           Inl e \<Rightarrow> (Inl e, s)
         | Inr ps \<Rightarrow> handle_get_command w svc ps s)
        is_ValueError
        (\<lambda>e s'. (Inr 1, py_print (PrintParamError e) s'))) = Inr 1
   \<or> (\<exists>e'. fst (try_except
        (case parse_params l of
           Inl e \<Rightarrow> (Inl e, s)
         | Inr ps \<Rightarrow> handle_get_command w svc ps s)
        is_ValueError
        (\<lambda>e s'. (Inr 1, py_print (PrintParamError e) s'))) = Inl e' \<and> \<not> is_Exception e')"
proof (cases "parse_params l")
  case (Inl x)
  then have "is_ValueError x"
    by (rule parse_params_error)
  with Inl show ?thesis
    by (simp add: try_except_def)
next
  case (Inr ps)
  obtain r s' where h: "handle_get_command w svc ps s = (r, s')"
    by (cases "handle_get_command w svc ps s")
  with handle_get_outcomes [of w svc ps s]
  consider "r = Inr 0" | "r = Inr 1" | e where "r = Inl e" "\<not> is_Exception e"
    by auto
  then show ?thesis
  proof cases
    case 1
    with Inr h show ?thesis by (simp add: try_except_def)
  next
    case 2
    with Inr h show ?thesis by (simp add: try_except_def)
  next
    case 3
    with Inr h show ?thesis by (simp add: try_except_def not_ValueError)
  qed
qed

lemma dispatch_outcomes:
  "fst (dispatch w a cfg s) = Inr 0 \<or> fst (dispatch w a cfg s) = Inr 1
   \<or> (\<exists>e. fst (dispatch w a cfg s) = Inl e \<and> \<not> is_Exception e)"
proof -
  consider "command a = None \<or> command a = Some []" | "command a = Some ''ping''"
    | "command a = Some ''get''"
    | "command a \<noteq> None" "command a \<noteq> Some []" "command a \<noteq> Some ''ping''"
      "command a \<noteq> Some ''get''"
    by blast
  then show ?thesis
  proof cases
    case 1
    then show ?thesis by (auto simp: dispatch_def)
  next
    case 2
    then have "fst (dispatch w a cfg s) = fst (handle_ping_command w (the_service cfg) s)"
      by (simp add: dispatch_ping split: prod.splits)
    with handle_ping_outcomes [of w "the_service cfg" s] show ?thesis
      by simp
  next
    case 3
    then have "fst (dispatch w a cfg s) = fst (try_except
        (case parse_params (case params a of None \<Rightarrow> [] | Some l \<Rightarrow> l) of
           Inl e \<Rightarrow> (Inl e, s)
         | Inr ps \<Rightarrow> handle_get_command w (the_service cfg) ps s)
        is_ValueError
        (\<lambda>e s'. (Inr 1, py_print (PrintParamError e) s')))"
      by (simp add: dispatch_get split: prod.splits)
    with get_branch_outcomes [where l = "case params a of None \<Rightarrow> [] | Some l \<Rightarrow> l"
        and s = s and w = w and svc = "the_service cfg"]
    show ?thesis
      by simp
  next
    case 4
    then show ?thesis
      by (simp add: dispatch_def with_service_def)
  qed
qed

lemma main_try_outcomes:
  "fst (main_try w s) = Inr 0 \<or> fst (main_try w s) = Inr 1
   \<or> (\<exists>e. fst (main_try w s) = Inl e)"
proof (cases "parse_args w")
  case (Inl e)
  then show ?thesis by (simp add: main_try_def)
next
  case a: (Inr a)
  show ?thesis
  proof (cases "get_settings w")
    case (Inl e)
    with a show ?thesis by (simp add: main_try_def)
  next
    case cfg: (Inr cfg)
    show ?thesis
    proof (cases "setup_logger w (log_level cfg)")
      case None
      with a cfg have "main_try w s = dispatch w a cfg s"
        by (simp add: main_try_def)
      with dispatch_outcomes [of w a cfg s] show ?thesis
        by auto
    next
      case (Some e)
      with a cfg show ?thesis by (simp add: main_try_def)
    qed
  qed
qed

lemma main_outcomes:
  "fst (main w s) = Inr 0 \<or> fst (main w s) = Inr 1 \<or> fst (main w s) = Inr 130
   \<or> (\<exists>k. fst (main w s) = Inl (SystemExit k))"
proof (cases "main_try w s")
  case (Pair r s')
  show ?thesis
  proof (cases r)
    case (Inl e)
    with Pair show ?thesis
      by (cases e) (simp_all add: main_def try_except_def)
  next
    case (Inr n)
    with Pair main_try_outcomes [of w s] have "n = 0 \<or> n = 1"
      by auto
    with Pair Inr show ?thesis
      by (auto simp: main_def try_except_def)
  qed
qed

text \<open>
  C5. A \<open>get\<close> invocation whose \<open>--params\<close> list holds a token without \<open>=\<close>, or a
  token whose key is empty (as in \<open>=v\<close>), fails in parameter parsing: \<open>main\<close> returns 1,
  prints the parsing error, and no request is issued. Since \<open>get_with_params\<close> issues
  a request whenever it is called, it was not called.
\<close>

theorem malformed_token_no_request:
  assumes "started w a cfg" and "command a = Some ''get''" and "params a = Some ps"
    and "p \<in> set ps"
    and "CHR ''='' \<notin> set p \<or> (\<exists>k v. p = k @ ''='' @ v \<and> strip k = [])"
  shows "fst (main w s) = Inr 1 \<and> calls (snd (main w s)) = calls s
         \<and> (\<exists>e. is_ValueError e \<and> parse_params ps = Inl e
                \<and> stdout (snd (main w s)) = stdout s @ [PrintParamError e])"
proof -
  from assms(5) have "malformed p"
    by (rule malformed_token)
  with assms(4) obtain e where e: "parse_params ps = Inl e" "is_ValueError e"
    using parse_params_malformed by blast
  with assms(1,2,3)
  have "main w s = (Inr 1, close (the_service cfg) (py_print (PrintParamError e) s))"
    by (simp add: main_try_started dispatch_get main_of_return try_except_def)
  with e show ?thesis
    by (simp add: close_def py_print_def)
qed

theorem malformed_token_no_request_witness:
  "started (world0 (Inr (args0 (Some ''get'') (Some [''a=1'', ''=v'']))) (Inr settings0) (Inr resp_ok))
       (args0 (Some ''get'') (Some [''a=1'', ''=v''])) settings0
   \<and> command (args0 (Some ''get'') (Some [''a=1'', ''=v''])) = Some ''get''
   \<and> params (args0 (Some ''get'') (Some [''a=1'', ''=v''])) = Some [''a=1'', ''=v'']
   \<and> ''=v'' \<in> set [''a=1'', ''=v'']
   \<and> ''=v'' = [] @ ''='' @ ''v'' \<and> strip [] = []
   \<and> fst (main (world0 (Inr (args0 (Some ''get'') (Some [''a=1'', ''=v'']))) (Inr settings0)
              (Inr resp_ok)) state0) = Inr 1
   \<and> calls (snd (main (world0 (Inr (args0 (Some ''get'') (Some [''a=1'', ''=v'']))) (Inr settings0)
              (Inr resp_ok)) state0)) = []"
proof -
  have h: "started (world0 (Inr (args0 (Some ''get'') (Some [''a=1'', ''=v'']))) (Inr settings0) (Inr resp_ok))
       (args0 (Some ''get'') (Some [''a=1'', ''=v''])) settings0"
    "command (args0 (Some ''get'') (Some [''a=1'', ''=v''])) = Some ''get''"
    "params (args0 (Some ''get'') (Some [''a=1'', ''=v''])) = Some [''a=1'', ''=v'']"
    "''=v'' \<in> set [''a=1'', ''=v'']"
    by (simp_all add: started_def sample_defs)
  have k: "''=v'' = [] @ ''='' @ ''v''" "strip [] = []"
    by (simp_all add: strip_def)
  then have b: "CHR ''='' \<notin> set ''=v'' \<or> (\<exists>k v. ''=v'' = k @ ''='' @ v \<and> strip k = [])"
    by blast
  from malformed_token_no_request [OF h b, of state0]
  have "fst (main (world0 (Inr (args0 (Some ''get'') (Some [''a=1'', ''=v'']))) (Inr settings0)
              (Inr resp_ok)) state0) = Inr 1"
    and "calls (snd (main (world0 (Inr (args0 (Some ''get'') (Some [''a=1'', ''=v'']))) (Inr settings0)
              (Inr resp_ok)) state0)) = []"
    by (simp_all add: state0_def)
  with h k show ?thesis by blast
qed


text \<open>
  C7, as the code has it. The exit codes of \<open>main\<close>. Once startup is through: no
  subcommand prints the help and returns 1; \<open>ping\<close> prints the envelope and returns 0
  when its \<open>success\<close> is true, 1 when it is false, and 1 with an error object when
  \<open>ping\<close> raises an \<open>Exception\<close>; \<open>get\<close> returns 0 and prints the JSON on success, 1
  on a parameter parsing error, 1 on a request error. A \<open>KeyboardInterrupt\<close> from the
  request passes the inner handlers and gives 130, as does any \<open>KeyboardInterrupt\<close>
  that leaves the body of \<open>main\<close>; any \<open>Exception\<close> that leaves the body gives 1.
  A \<open>SystemExit\<close>, which \<open>parse_args\<close> raises on a usage error (code 2) and on
  \<open>--help\<close> (code 0), is caught by neither handler: \<open>main\<close> does not return and the
  exit carries its own code. These are all the outcomes: \<open>main\<close> returns 0, 1 or 130,
  or a \<open>SystemExit\<close> leaves it.
\<close>

theorem main_exit_codes:
  "(started w a cfg \<and> command a = None \<longrightarrow>
      main w s = (Inr 1, py_print PrintHelp s))
   \<and> (started w a cfg \<and> command a = Some ''ping'' \<and> ping w (the_service cfg) s = (Inr r, s') \<longrightarrow>
      fst (main w s) = Inr (if success r then 0 else 1)
      \<and> stdout (snd (main w s)) = stdout s' @ [PrintEnvelope r])
   \<and> (started w a cfg \<and> command a = Some ''ping'' \<and> ping w (the_service cfg) s = (Inl e, s')
        \<and> is_Exception e \<longrightarrow>
      fst (main w s) = Inr 1 \<and> stdout (snd (main w s)) = stdout s' @ [PrintPingError e])
   \<and> (started w a cfg \<and> command a = Some ''get''
        \<and> parse_params (case params a of None \<Rightarrow> [] | Some l \<Rightarrow> l) = Inr ps
        \<and> get_with_params w (the_service cfg) (if ps = [] then None else Some ps) s = (Inr j, s') \<longrightarrow>
      fst (main w s) = Inr 0 \<and> stdout (snd (main w s)) = stdout s' @ [PrintJson j])
   \<and> (started w a cfg \<and> command a = Some ''get''
        \<and> parse_params (case params a of None \<Rightarrow> [] | Some l \<Rightarrow> l) = Inl e \<longrightarrow>
      fst (main w s) = Inr 1 \<and> stdout (snd (main w s)) = stdout s @ [PrintParamError e])
   \<and> (started w a cfg \<and> command a = Some ''get''
        \<and> parse_params (case params a of None \<Rightarrow> [] | Some l \<Rightarrow> l) = Inr ps
        \<and> get_with_params w (the_service cfg) (if ps = [] then None else Some ps) s = (Inl e, s')
        \<and> is_Exception e \<longrightarrow>
      fst (main w s) = Inr 1 \<and> stdout (snd (main w s)) = stdout s' @ [PrintGetError e])
   \<and> (started w a cfg \<and> command a = Some ''ping''
        \<and> ping w (the_service cfg) s = (Inl KeyboardInterrupt, s') \<longrightarrow>
      fst (main w s) = Inr 130)
   \<and> (started w a cfg \<and> command a = Some ''get''
        \<and> parse_params (case params a of None \<Rightarrow> [] | Some l \<Rightarrow> l) = Inr ps
        \<and> get_with_params w (the_service cfg) (if ps = [] then None else Some ps) s
            = (Inl KeyboardInterrupt, s') \<longrightarrow>
      fst (main w s) = Inr 130)
   \<and> (fst (main_try w s) = Inl KeyboardInterrupt \<longrightarrow> fst (main w s) = Inr 130)
   \<and> (fst (main_try w s) = Inl e \<and> is_Exception e \<longrightarrow> fst (main w s) = Inr 1)
   \<and> (parse_args w = Inl (SystemExit n) \<longrightarrow> main w s = (Inl (SystemExit n), s))
   \<and> (fst (main_try w s) = Inl (SystemExit n) \<longrightarrow> fst (main w s) = Inl (SystemExit n))
   \<and> (fst (main w s) = Inr 0 \<or> fst (main w s) = Inr 1 \<or> fst (main w s) = Inr 130
        \<or> (\<exists>k. fst (main w s) = Inl (SystemExit k)))"
proof (intro conjI impI; (elim conjE)?)
  assume "started w a cfg" "command a = None"
  then show "main w s = (Inr 1, py_print PrintHelp s)"
    by (simp add: main_try_started dispatch_none main_of_return)
next
  assume "started w a cfg" "command a = Some ''ping''" "ping w (the_service cfg) s = (Inr r, s')"
  then have "main w s = (Inr (if success r then 0 else 1),
      close (the_service cfg) (py_print (PrintEnvelope r) s'))"
    by (simp add: main_try_started dispatch_ping handle_ping_result main_of_return)
  then show "fst (main w s) = Inr (if success r then 0 else 1)"
    and "stdout (snd (main w s)) = stdout s' @ [PrintEnvelope r]"
    by (simp_all add: close_def py_print_def)
next
  assume "started w a cfg" "command a = Some ''ping''"
    "ping w (the_service cfg) s = (Inl e, s')" "is_Exception e"
  then have "main w s = (Inr 1, close (the_service cfg) (py_print (PrintPingError e) s'))"
    by (simp add: main_try_started dispatch_ping handle_ping_exception main_of_return)
  then show "fst (main w s) = Inr 1"
    and "stdout (snd (main w s)) = stdout s' @ [PrintPingError e]"
    by (simp_all add: close_def py_print_def)
next
  assume "started w a cfg" "command a = Some ''get''"
    "parse_params (case params a of None \<Rightarrow> [] | Some l \<Rightarrow> l) = Inr ps"
    "get_with_params w (the_service cfg) (if ps = [] then None else Some ps) s = (Inr j, s')"
  then have "main w s = (Inr 0, close (the_service cfg) (py_print (PrintJson j) s'))"
    by (simp add: main_try_started dispatch_get handle_get_result main_of_return try_except_def)
  then show "fst (main w s) = Inr 0"
    and "stdout (snd (main w s)) = stdout s' @ [PrintJson j]"
    by (simp_all add: close_def py_print_def)
next
  assume "started w a cfg" "command a = Some ''get''"
    and pe: "parse_params (case params a of None \<Rightarrow> [] | Some l \<Rightarrow> l) = Inl e"
  moreover from pe have "is_ValueError e"
    by (rule parse_params_error)
  ultimately have "main w s = (Inr 1, close (the_service cfg) (py_print (PrintParamError e) s))"
    by (simp add: main_try_started dispatch_get main_of_return try_except_def)
  then show "fst (main w s) = Inr 1"
    and "stdout (snd (main w s)) = stdout s @ [PrintParamError e]"
    by (simp_all add: close_def py_print_def)
next
  assume "started w a cfg" "command a = Some ''get''"
    "parse_params (case params a of None \<Rightarrow> [] | Some l \<Rightarrow> l) = Inr ps"
    "get_with_params w (the_service cfg) (if ps = [] then None else Some ps) s = (Inl e, s')"
    "is_Exception e"
  then have "main w s = (Inr 1, close (the_service cfg) (py_print (PrintGetError e) s'))"
    by (simp add: main_try_started dispatch_get handle_get_exception main_of_return try_except_def)
  then show "fst (main w s) = Inr 1"
    and "stdout (snd (main w s)) = stdout s' @ [PrintGetError e]"
    by (simp_all add: close_def py_print_def)
next
  assume "started w a cfg" "command a = Some ''ping''"
    "ping w (the_service cfg) s = (Inl KeyboardInterrupt, s')"
  then have "main_try w s = (Inl KeyboardInterrupt, close (the_service cfg) s')"
    by (simp add: main_try_started dispatch_ping handle_ping_interrupt)
  then show "fst (main w s) = Inr 130"
    by (simp add: main_of_interrupt)
next
  assume "started w a cfg" "command a = Some ''get''"
    "parse_params (case params a of None \<Rightarrow> [] | Some l \<Rightarrow> l) = Inr ps"
    "get_with_params w (the_service cfg) (if ps = [] then None else Some ps) s
       = (Inl KeyboardInterrupt, s')"
  then have "main_try w s = (Inl KeyboardInterrupt, close (the_service cfg) s')"
    by (simp add: main_try_started dispatch_get handle_get_interrupt try_except_def)
  then show "fst (main w s) = Inr 130"
    by (simp add: main_of_interrupt)
next
  assume "fst (main_try w s) = Inl KeyboardInterrupt"
  then have "main_try w s = (Inl KeyboardInterrupt, snd (main_try w s))"
    by (metis prod.collapse)
  then show "fst (main w s) = Inr 130"
    by (simp add: main_of_interrupt)
next
  assume "fst (main_try w s) = Inl e" "is_Exception e"
  then have "main_try w s = (Inl e, snd (main_try w s))"
    by (metis prod.collapse)
  with \<open>is_Exception e\<close> show "fst (main w s) = Inr 1"
    by (simp add: main_of_exception)
next
  assume "parse_args w = Inl (SystemExit n)"
  then show "main w s = (Inl (SystemExit n), s)"
    by (simp add: main_def main_try_def try_except_def)
next
  assume "fst (main_try w s) = Inl (SystemExit n)"
  then have "main_try w s = (Inl (SystemExit n), snd (main_try w s))"
    by (metis prod.collapse)
  then have "main w s = (Inl (SystemExit n), snd (main_try w s))"
    by (rule main_of_system_exit)
  then show "fst (main w s) = Inl (SystemExit n)"
    by simp
next
  show "fst (main w s) = Inr 0 \<or> fst (main w s) = Inr 1 \<or> fst (main w s) = Inr 130
        \<or> (\<exists>k. fst (main w s) = Inl (SystemExit k))"
    by (rule main_outcomes)
qed


lemma started_cli_world: "started (cli_world c ps net) (args0 c ps) settings0"
  by (simp add: started_def cli_world_def world0_def settings0_def)

lemma the_service_settings0: "the_service settings0 = service0"
  by (simp add: the_service_def settings0_def service0_def ExampleService_init_def rstrip_def)

lemmas eval_defs = cli_world_def sample_defs run_defs raise_for_status_def

theorem main_exit_codes_witness:
  "started (cli_world None None (Inr resp_ok)) (args0 None None) settings0
   \<and> command (args0 None None) = None
   \<and> main (cli_world None None (Inr resp_ok)) state0 = (Inr 1, py_print PrintHelp state0)
   \<and> ping (cli_world (Some ''ping'') None (Inr resp_ok)) (the_service settings0) state0
      = (Inr \<lparr>status = Some 200, headers_env = [(''Content-Type'', ''application/json'')],
               success = True, message = ''Successfully connected to https://x/get''\<rparr>,
         state0\<lparr>calls := [ping_call service0]\<rparr>)
   \<and> fst (main (cli_world (Some ''ping'') None (Inr resp_ok)) state0) = Inr 0
   \<and> ping (cli_world (Some ''ping'') None (Inl (RequestException ''Network timeout'' None)))
        (the_service settings0) state0
      = (Inr \<lparr>status = None, headers_env = [], success = False,
               message = ''Connection to https://x/get failed: Network timeout''\<rparr>,
         state0\<lparr>calls := [ping_call service0]\<rparr>)
   \<and> fst (main (cli_world (Some ''ping'') None (Inl (RequestException ''Network timeout'' None)))
        state0) = Inr 1
   \<and> ping (cli_world (Some ''ping'') None (Inl (ValueError ''bad timeout'')))
        (the_service settings0) state0
      = (Inl (ValueError ''bad timeout''), state0\<lparr>calls := [ping_call service0]\<rparr>)
   \<and> is_Exception (ValueError ''bad timeout'')
   \<and> fst (main (cli_world (Some ''ping'') None (Inl (ValueError ''bad timeout''))) state0) = Inr 1
   \<and> parse_params [''k=v''] = Inr [(''k'', PStr ''v'')]
   \<and> get_with_params (cli_world (Some ''get'') (Some [''k=v'']) (Inr resp_ok))
        (the_service settings0) (Some [(''k'', PStr ''v'')]) state0
      = (Inr (JObject []), state0\<lparr>calls := [get_call service0 (Some [(''k'', PStr ''v'')])]\<rparr>)
   \<and> fst (main (cli_world (Some ''get'') (Some [''k=v'']) (Inr resp_ok)) state0) = Inr 0
   \<and> parse_params [''novalue'']
      = Inl (ValueError (''Invalid parameter format: novalue. Expected 'key=value'' @ [CHR 0x27]))
   \<and> fst (main (cli_world (Some ''get'') (Some [''novalue'']) (Inr resp_ok)) state0) = Inr 1
   \<and> fst (main (cli_world (Some ''get'') (Some [''k=v'']) (Inr resp_not_found)) state0) = Inr 1
   \<and> fst (main (cli_world (Some ''ping'') None (Inl KeyboardInterrupt)) state0) = Inr 130
   \<and> fst (main (cli_world (Some ''get'') (Some [''k=v'']) (Inl KeyboardInterrupt)) state0) = Inr 130
   \<and> fst (main_try (world0 (Inr (args0 (Some ''ping'') None)) (Inl KeyboardInterrupt) (Inr resp_ok))
        state0) = Inl KeyboardInterrupt
   \<and> fst (main (world0 (Inr (args0 (Some ''ping'') None)) (Inl KeyboardInterrupt) (Inr resp_ok))
        state0) = Inr 130
   \<and> fst (main_try (world0 (Inr (args0 (Some ''ping'') None)) (Inl (OtherException ''bad settings''))
        (Inr resp_ok)) state0) = Inl (OtherException ''bad settings'')
   \<and> fst (main (world0 (Inr (args0 (Some ''ping'') None)) (Inl (OtherException ''bad settings''))
        (Inr resp_ok)) state0) = Inr 1
   \<and> parse_args (world0 (Inl (SystemExit 2)) (Inr settings0) (Inr resp_ok)) = Inl (SystemExit 2)
   \<and> main (world0 (Inl (SystemExit 2)) (Inr settings0) (Inr resp_ok)) state0
      = (Inl (SystemExit 2), state0)"
proof -
  note st = started_cli_world
  have cmd: "command (args0 c ps) = c" "params (args0 c ps) = ps" for c ps
    by (simp_all add: args0_def)
  \<comment> \<open>no subcommand\<close>
  have h1: "started (cli_world None None (Inr resp_ok)) (args0 None None) settings0
      \<and> command (args0 None None) = None"
    by (simp add: st cmd)
  note c1 = main_exit_codes [where s = state0, THEN conjunct1, rule_format, OF h1]
  \<comment> \<open>ping, success\<close>
  have p2: "ping (cli_world (Some ''ping'') None (Inr resp_ok)) (the_service settings0) state0
      = (Inr \<lparr>status = Some 200, headers_env = [(''Content-Type'', ''application/json'')],
               success = True, message = ''Successfully connected to https://x/get''\<rparr>,
         state0\<lparr>calls := [ping_call service0]\<rparr>)"
    unfolding the_service_settings0 by (simp add: eval_defs)
  have h2: "started (cli_world (Some ''ping'') None (Inr resp_ok)) (args0 (Some ''ping'') None) settings0
      \<and> command (args0 (Some ''ping'') None) = Some ''ping''
      \<and> ping (cli_world (Some ''ping'') None (Inr resp_ok)) (the_service settings0) state0
      = (Inr \<lparr>status = Some 200, headers_env = [(''Content-Type'', ''application/json'')],
               success = True, message = ''Successfully connected to https://x/get''\<rparr>,
         state0\<lparr>calls := [ping_call service0]\<rparr>)"
    using p2 by (simp add: st cmd)
  from main_exit_codes [THEN conjunct2, THEN conjunct1, rule_format, OF h2]
  have c2: "fst (main (cli_world (Some ''ping'') None (Inr resp_ok)) state0) = Inr 0"
    by simp
  \<comment> \<open>ping, failure absorbed\<close>
  have p3: "ping (cli_world (Some ''ping'') None (Inl (RequestException ''Network timeout'' None)))
        (the_service settings0) state0
      = (Inr \<lparr>status = None, headers_env = [], success = False,
               message = ''Connection to https://x/get failed: Network timeout''\<rparr>,
         state0\<lparr>calls := [ping_call service0]\<rparr>)"
    unfolding the_service_settings0 by (simp add: eval_defs)
  have h3: "started (cli_world (Some ''ping'') None (Inl (RequestException ''Network timeout'' None)))
        (args0 (Some ''ping'') None) settings0
      \<and> command (args0 (Some ''ping'') None) = Some ''ping''
      \<and> ping (cli_world (Some ''ping'') None (Inl (RequestException ''Network timeout'' None)))
        (the_service settings0) state0
      = (Inr \<lparr>status = None, headers_env = [], success = False,
               message = ''Connection to https://x/get failed: Network timeout''\<rparr>,
         state0\<lparr>calls := [ping_call service0]\<rparr>)"
    using p3 by (simp add: st cmd)
  from main_exit_codes [THEN conjunct2, THEN conjunct1, rule_format, OF h3]
  have c3: "fst (main (cli_world (Some ''ping'') None (Inl (RequestException ''Network timeout'' None)))
        state0) = Inr 1"
    by simp
  \<comment> \<open>ping raises an Exception\<close>
  have p4: "ping (cli_world (Some ''ping'') None (Inl (ValueError ''bad timeout'')))
        (the_service settings0) state0
      = (Inl (ValueError ''bad timeout''), state0\<lparr>calls := [ping_call service0]\<rparr>)"
    unfolding the_service_settings0 by (simp add: eval_defs)
  have h4: "started (cli_world (Some ''ping'') None (Inl (ValueError ''bad timeout'')))
        (args0 (Some ''ping'') None) settings0
      \<and> command (args0 (Some ''ping'') None) = Some ''ping''
      \<and> ping (cli_world (Some ''ping'') None (Inl (ValueError ''bad timeout'')))
        (the_service settings0) state0
      = (Inl (ValueError ''bad timeout''), state0\<lparr>calls := [ping_call service0]\<rparr>)
      \<and> is_Exception (ValueError ''bad timeout'')"
    using p4 by (simp add: st cmd)
  from main_exit_codes [THEN conjunct2, THEN conjunct2, THEN conjunct1, rule_format, OF h4]
  have c4: "fst (main (cli_world (Some ''ping'') None (Inl (ValueError ''bad timeout''))) state0) = Inr 1"
    by simp
  \<comment> \<open>get, success\<close>
  have pp: "parse_params [''k=v''] = Inr [(''k'', PStr ''v'')]"
    by code_simp
  have g5: "get_with_params (cli_world (Some ''get'') (Some [''k=v'']) (Inr resp_ok))
        (the_service settings0) (Some [(''k'', PStr ''v'')]) state0
      = (Inr (JObject []), state0\<lparr>calls := [get_call service0 (Some [(''k'', PStr ''v'')])]\<rparr>)"
    unfolding the_service_settings0 by (simp add: eval_defs)
  have h5: "started (cli_world (Some ''get'') (Some [''k=v'']) (Inr resp_ok))
        (args0 (Some ''get'') (Some [''k=v''])) settings0
      \<and> command (args0 (Some ''get'') (Some [''k=v''])) = Some ''get''
      \<and> parse_params (case params (args0 (Some ''get'') (Some [''k=v''])) of None \<Rightarrow> [] | Some l \<Rightarrow> l)
          = Inr [(''k'', PStr ''v'')]
      \<and> get_with_params (cli_world (Some ''get'') (Some [''k=v'']) (Inr resp_ok))
          (the_service settings0)
          (if [(''k'', PStr ''v'')] = [] then None else Some [(''k'', PStr ''v'')]) state0
        = (Inr (JObject []), state0\<lparr>calls := [get_call service0 (Some [(''k'', PStr ''v'')])]\<rparr>)"
    using pp g5 by (simp add: st cmd)
  from main_exit_codes [THEN conjunct2, THEN conjunct2, THEN conjunct2, THEN conjunct1,
      rule_format, OF h5]
  have c5: "fst (main (cli_world (Some ''get'') (Some [''k=v'']) (Inr resp_ok)) state0) = Inr 0"
    by simp
  \<comment> \<open>get, parameter error\<close>
  have pe: "parse_params [''novalue'']
      = Inl (ValueError (''Invalid parameter format: novalue. Expected 'key=value'' @ [CHR 0x27]))"
    by code_simp
  have h6: "started (cli_world (Some ''get'') (Some [''novalue'']) (Inr resp_ok))
        (args0 (Some ''get'') (Some [''novalue''])) settings0
      \<and> command (args0 (Some ''get'') (Some [''novalue''])) = Some ''get''
      \<and> parse_params (case params (args0 (Some ''get'') (Some [''novalue''])) of None \<Rightarrow> [] | Some l \<Rightarrow> l)
          = Inl (ValueError (''Invalid parameter format: novalue. Expected 'key=value'' @ [CHR 0x27]))"
    using pe by (simp add: st cmd)
  from main_exit_codes [THEN conjunct2, THEN conjunct2, THEN conjunct2, THEN conjunct2,
      THEN conjunct1, rule_format, OF h6]
  have c6: "fst (main (cli_world (Some ''get'') (Some [''novalue'']) (Inr resp_ok)) state0) = Inr 1"
    by simp
  \<comment> \<open>get, request error\<close>
  have g7: "get_with_params (cli_world (Some ''get'') (Some [''k=v'']) (Inr resp_not_found))
        (the_service settings0) (Some [(''k'', PStr ''v'')]) state0
      = (Inl (RequestException
           ''GET request to https://x/get failed: 404 Client Error: Not Found for url: https://x/get''
           None),
         state0\<lparr>calls := [get_call service0 (Some [(''k'', PStr ''v'')])]\<rparr>)"
    unfolding the_service_settings0 by (simp add: eval_defs str_int_404)
  have h7: "started (cli_world (Some ''get'') (Some [''k=v'']) (Inr resp_not_found))
        (args0 (Some ''get'') (Some [''k=v''])) settings0
      \<and> command (args0 (Some ''get'') (Some [''k=v''])) = Some ''get''
      \<and> parse_params (case params (args0 (Some ''get'') (Some [''k=v''])) of None \<Rightarrow> [] | Some l \<Rightarrow> l)
          = Inr [(''k'', PStr ''v'')]
      \<and> get_with_params (cli_world (Some ''get'') (Some [''k=v'']) (Inr resp_not_found))
          (the_service settings0)
          (if [(''k'', PStr ''v'')] = [] then None else Some [(''k'', PStr ''v'')]) state0
        = (Inl (RequestException
           ''GET request to https://x/get failed: 404 Client Error: Not Found for url: https://x/get''
           None),
           state0\<lparr>calls := [get_call service0 (Some [(''k'', PStr ''v'')])]\<rparr>)
      \<and> is_Exception (RequestException
           ''GET request to https://x/get failed: 404 Client Error: Not Found for url: https://x/get''
           None)"
    using pp g7 by (simp add: st cmd)
  from main_exit_codes [THEN conjunct2, THEN conjunct2, THEN conjunct2, THEN conjunct2,
      THEN conjunct2, THEN conjunct1, rule_format, OF h7]
  have c7: "fst (main (cli_world (Some ''get'') (Some [''k=v'']) (Inr resp_not_found)) state0) = Inr 1"
    by simp
  \<comment> \<open>interrupted requests\<close>
  have p8: "ping (cli_world (Some ''ping'') None (Inl KeyboardInterrupt)) (the_service settings0) state0
      = (Inl KeyboardInterrupt, state0\<lparr>calls := [ping_call service0]\<rparr>)"
    unfolding the_service_settings0 by (simp add: eval_defs)
  have h8: "started (cli_world (Some ''ping'') None (Inl KeyboardInterrupt))
        (args0 (Some ''ping'') None) settings0
      \<and> command (args0 (Some ''ping'') None) = Some ''ping''
      \<and> ping (cli_world (Some ''ping'') None (Inl KeyboardInterrupt)) (the_service settings0) state0
      = (Inl KeyboardInterrupt, state0\<lparr>calls := [ping_call service0]\<rparr>)"
    using p8 by (simp add: st cmd)
  note c8 = main_exit_codes [THEN conjunct2, THEN conjunct2, THEN conjunct2, THEN conjunct2,
      THEN conjunct2, THEN conjunct2, THEN conjunct1, rule_format, OF h8]
  have g9: "get_with_params (cli_world (Some ''get'') (Some [''k=v'']) (Inl KeyboardInterrupt))
        (the_service settings0) (Some [(''k'', PStr ''v'')]) state0
      = (Inl KeyboardInterrupt, state0\<lparr>calls := [get_call service0 (Some [(''k'', PStr ''v'')])]\<rparr>)"
    unfolding the_service_settings0 by (simp add: eval_defs)
  have h9: "started (cli_world (Some ''get'') (Some [''k=v'']) (Inl KeyboardInterrupt))
        (args0 (Some ''get'') (Some [''k=v''])) settings0
      \<and> command (args0 (Some ''get'') (Some [''k=v''])) = Some ''get''
      \<and> parse_params (case params (args0 (Some ''get'') (Some [''k=v''])) of None \<Rightarrow> [] | Some l \<Rightarrow> l)
          = Inr [(''k'', PStr ''v'')]
      \<and> get_with_params (cli_world (Some ''get'') (Some [''k=v'']) (Inl KeyboardInterrupt))
          (the_service settings0)
          (if [(''k'', PStr ''v'')] = [] then None else Some [(''k'', PStr ''v'')]) state0
        = (Inl KeyboardInterrupt, state0\<lparr>calls := [get_call service0 (Some [(''k'', PStr ''v'')])]\<rparr>)"
    using pp g9 by (simp add: st cmd)
  note c9 = main_exit_codes [THEN conjunct2, THEN conjunct2, THEN conjunct2, THEN conjunct2,
      THEN conjunct2, THEN conjunct2, THEN conjunct2, THEN conjunct1, rule_format, OF h9]
  \<comment> \<open>exceptions at startup\<close>
  have h10: "fst (main_try (world0 (Inr (args0 (Some ''ping'') None)) (Inl KeyboardInterrupt) (Inr resp_ok))
        state0) = Inl KeyboardInterrupt"
    by (simp add: main_try_def world0_def)
  note c10 = main_exit_codes [THEN conjunct2, THEN conjunct2, THEN conjunct2, THEN conjunct2,
      THEN conjunct2, THEN conjunct2, THEN conjunct2, THEN conjunct2, THEN conjunct1,
      rule_format, OF h10]
  have h11: "fst (main_try (world0 (Inr (args0 (Some ''ping'') None)) (Inl (OtherException ''bad settings''))
        (Inr resp_ok)) state0) = Inl (OtherException ''bad settings'')
      \<and> is_Exception (OtherException ''bad settings'')"
    by (simp add: main_try_def world0_def)
  note c11 = main_exit_codes [THEN conjunct2, THEN conjunct2, THEN conjunct2, THEN conjunct2,
      THEN conjunct2, THEN conjunct2, THEN conjunct2, THEN conjunct2, THEN conjunct2,
      THEN conjunct1, rule_format, OF h11]
  \<comment> \<open>a usage error\<close>
  have h12: "parse_args (world0 (Inl (SystemExit 2)) (Inr settings0) (Inr resp_ok)) = Inl (SystemExit 2)"
    by (simp add: world0_def)
  note c12 = main_exit_codes [THEN conjunct2, THEN conjunct2, THEN conjunct2, THEN conjunct2,
      THEN conjunct2, THEN conjunct2, THEN conjunct2, THEN conjunct2, THEN conjunct2,
      THEN conjunct2, THEN conjunct1, rule_format, OF h12, of state0]
  have ex: "is_Exception (ValueError ''bad timeout'')"
    by simp
  from h1 c1 p2 c2 p3 c3 p4 ex c4 pp g5 c5 pe c6 c7 c8 c9 h10 c10 h11 c11 h12 c12
  show ?thesis
    by (intro conjI) (simp_all only:)
qed


text \<open>
  C7 as stated fails: it lists the exit codes 0, 1 and 130 as all there are, and sends
  every other uncaught error to 1. On a usage error \<open>parse_args\<close>, which runs inside the
  \<open>try\<close> of \<open>main\<close>, raises \<open>SystemExit(2)\<close>; it is no \<open>Exception\<close>, \<open>main\<close> returns
  nothing and prints nothing, and the exit code is 2.
\<close>

theorem main_exit_codes_counterexample:
  "main (world0 (Inl (SystemExit 2)) (Inr settings0) (Inr resp_ok)) state0
     = (Inl (SystemExit 2), state0)
   \<and> fst (main (world0 (Inl (SystemExit 2)) (Inr settings0) (Inr resp_ok)) state0) \<noteq> Inr 1
   \<and> fst (main (world0 (Inl (SystemExit 2)) (Inr settings0) (Inr resp_ok)) state0) \<noteq> Inr 130
   \<and> fst (main (world0 (Inl (SystemExit 2)) (Inr settings0) (Inr resp_ok)) state0) \<noteq> Inr 0"
  by (simp add: main_def main_try_def try_except_def world0_def)

end
